theory Spec2Isabelle
  imports Complex_Main "HOL-Library.Char_ord" "HOL-Library.List_Lexorder" "HOL-Library.Log_Nat"
begin

section \<open>Supplychain-AI: the reorder recommendation engine\<close>

text \<open>
  A shallow embedding of \<^verbatim>\<open>compute_recommendations\<close> and \<^verbatim>\<open>_ceil_to_moq\<close> of
  \<^verbatim>\<open>src/backend/main.py\<close> (the authenticated variant) and of
  \<^verbatim>\<open>src/backend/app/main.py\<close> (the unauthenticated variant).

  Conventions of the embedding:
  \<^item> A Python \<^verbatim>\<open>float\<close> is a value of \<open>fl\<close>: a finite number, \<open>+inf\<close>, \<open>-inf\<close> or
    \<open>NaN\<close>. The result of an addition, a multiplication, a division or a conversion from
    an integer is rounded to the nearest binary64 value, ties to even, with underflow to
    the subnormal numbers and overflow to infinity (\<open>round64\<close>). The sign of zero is not
    represented.
  \<^item> \<^verbatim>\<open>sum()\<close> and \<^verbatim>\<open>mean()\<close> add from left to right, rounding each partial sum; the
    blocked and compensated summations of numpy and pandas can differ from that in the
    last place on a long series whose partial sums are not exact.
  \<^item> A pandas timestamp is an \<open>int\<close>, the nanoseconds since the epoch, taken unbounded;
    \<^verbatim>\<open>NaT\<close> is \<open>None\<close>.
  \<^item> A \<^verbatim>\<open>datetime.date\<close> is its proleptic Gregorian ordinal, between 1 and 3652059
    (\<^verbatim>\<open>date.max\<close>, 9999-12-31); \<^verbatim>\<open>reorder_by\<close> keeps the ordinal of the date whose
    ISO text the source stores.
  \<^item> \<^verbatim>\<open>pd.to_datetime\<close> and \<^verbatim>\<open>pd.to_numeric\<close> are library code: they are parameters
    of the model, applied cell by cell.
  \<^item> Every exception the code can raise is a value of \<open>error\<close>.
\<close>

subsection \<open>Floats\<close>

datatype fl = Fin rat | PInf | NInf | NaN

text \<open>
  Rounding to binary64. \<open>ilog2 q\<close> is the exponent of a positive \<open>q\<close>, the \<open>e\<close> with
  \<open>2\<^sup>e \<le> q < 2\<^sup>e\<^sup>+\<^sup>1\<close>, found from the bit lengths of its numerator and denominator. A value
  of exponent \<open>e\<close> is rounded to a multiple of \<open>2\<^sup>e\<^sup>-\<^sup>5\<^sup>2\<close> (53 significant bits), a value below
  \<open>2\<^sup>-\<^sup>1\<^sup>0\<^sup>2\<^sup>2\<close> to a multiple of \<open>2\<^sup>-\<^sup>1\<^sup>0\<^sup>7\<^sup>4\<close>; a tie goes to the even multiple. The greatest
  float is \<open>(2\<^sup>5\<^sup>3 - 1) * 2\<^sup>9\<^sup>7\<^sup>1\<close>: a value of an exponent above 1023, or one of exponent 1023
  that rounds to \<open>2\<^sup>5\<^sup>3 * 2\<^sup>9\<^sup>7\<^sup>1\<close> (9007199254740992 is \<open>2\<^sup>5\<^sup>3\<close>), is infinite.
\<close>

definition round_half_even :: "rat \<Rightarrow> int" where
  "round_half_even q =
     (let f = \<lfloor>q\<rfloor>; d = q - of_int f
      in if d < 1 / 2 then f else if 1 / 2 < d then f + 1 else if even f then f else f + 1)"

definition ilog2 :: "rat \<Rightarrow> int" where
  "ilog2 q =
     (let d = bitlen (fst (quotient_of q)) - bitlen (snd (quotient_of q))
      in if 2 powi d \<le> q then d else d - 1)"

definition round64 :: "rat \<Rightarrow> fl" where
  "round64 q =
     (if q = 0 then Fin 0
      else
        (let e = max (ilog2 \<bar>q\<bar>) (- 1022);
             u = 2 powi (e - 52);
             n = round_half_even (\<bar>q\<bar> / u)
         in if 1023 < e \<or> (e = 1023 \<and> n = 9007199254740992)
            then (if q < 0 then NInf else PInf)
            else Fin (if q < 0 then - (of_int n * u) else of_int n * u)))"

fun fneg :: "fl \<Rightarrow> fl" where
  "fneg (Fin a) = Fin (- a)"
| "fneg PInf = NInf"
| "fneg NInf = PInf"
| "fneg NaN = NaN"

fun fadd :: "fl \<Rightarrow> fl \<Rightarrow> fl" where
  "fadd (Fin a) (Fin b) = round64 (a + b)"
| "fadd NaN _ = NaN"
| "fadd _ NaN = NaN"
| "fadd PInf NInf = NaN"
| "fadd NInf PInf = NaN"
| "fadd PInf _ = PInf"
| "fadd _ PInf = PInf"
| "fadd NInf _ = NInf"
| "fadd _ NInf = NInf"

definition fsub :: "fl \<Rightarrow> fl \<Rightarrow> fl" where
  "fsub a b = fadd a (fneg b)"

text \<open>The sign of a float: \<open>-1\<close>, \<open>0\<close> or \<open>1\<close>; \<open>None\<close> for \<open>NaN\<close>.\<close>

fun fsign :: "fl \<Rightarrow> int option" where
  "fsign (Fin a) = Some (if a < 0 then - 1 else if a = 0 then 0 else 1)"
| "fsign PInf = Some 1"
| "fsign NInf = Some (- 1)"
| "fsign NaN = None"

definition inf_of_sign :: "int \<Rightarrow> fl" where
  "inf_of_sign s = (if s < 0 then NInf else if s = 0 then NaN else PInf)"

fun fmul :: "fl \<Rightarrow> fl \<Rightarrow> fl" where
  "fmul (Fin a) (Fin b) = round64 (a * b)"
| "fmul a b =
     (case (fsign a, fsign b) of
        (Some s, Some t) \<Rightarrow> inf_of_sign (s * t)
      | _ \<Rightarrow> NaN)"

text \<open>
  IEEE division. Every division of the source has a divisor that its guard makes
  positive, so Python's \<^verbatim>\<open>ZeroDivisionError\<close> cannot arise there; a zero divisor is given
  the IEEE result of numpy.
\<close>

fun fdiv :: "fl \<Rightarrow> fl \<Rightarrow> fl" where
  "fdiv (Fin a) (Fin b) = (if b = 0 then inf_of_sign (if a < 0 then - 1 else if a = 0 then 0 else 1) else round64 (a / b))"
| "fdiv NaN _ = NaN"
| "fdiv _ NaN = NaN"
| "fdiv (Fin a) _ = Fin 0"
| "fdiv PInf (Fin b) = (if b < 0 then NInf else PInf)"
| "fdiv NInf (Fin b) = (if b < 0 then PInf else NInf)"
| "fdiv PInf PInf = NaN"
| "fdiv PInf NInf = NaN"
| "fdiv NInf PInf = NaN"
| "fdiv NInf NInf = NaN"

text \<open>Comparisons: every comparison with \<open>NaN\<close> is false, also \<open>NaN == NaN\<close>.\<close>

fun flt :: "fl \<Rightarrow> fl \<Rightarrow> bool" where
  "flt NaN _ = False"
| "flt _ NaN = False"
| "flt (Fin a) (Fin b) = (a < b)"
| "flt NInf NInf = False"
| "flt NInf _ = True"
| "flt _ NInf = False"
| "flt PInf _ = False"
| "flt _ PInf = True"

fun feq :: "fl \<Rightarrow> fl \<Rightarrow> bool" where
  "feq NaN _ = False"
| "feq _ NaN = False"
| "feq a b = (a = b)"

definition fle :: "fl \<Rightarrow> fl \<Rightarrow> bool" where
  "fle a b = (flt a b \<or> feq a b)"

definition fgt :: "fl \<Rightarrow> fl \<Rightarrow> bool" where
  "fgt a b = flt b a"

definition fge :: "fl \<Rightarrow> fl \<Rightarrow> bool" where
  "fge a b = fle b a"

text \<open>
  Python compares a float with an integer by their exact values, with no conversion:
  \<open>of_int_fl i\<close> is the integer \<open>i\<close> as the operand of such a comparison. In arithmetic the
  integer is converted first (\<open>float_of_int\<close> below), which rounds and can raise.
\<close>

definition of_int_fl :: "int \<Rightarrow> fl" where
  "of_int_fl i = Fin (of_int i)"

text \<open>\<^verbatim>\<open>math.isfinite\<close>, \<^verbatim>\<open>pd.notna\<close> on a float, and \<^verbatim>\<open>abs\<close>.\<close>

fun isfinite :: "fl \<Rightarrow> bool" where
  "isfinite (Fin _) = True"
| "isfinite _ = False"

definition notna :: "fl \<Rightarrow> bool" where
  "notna x = (x \<noteq> NaN)"

fun fabs :: "fl \<Rightarrow> fl" where
  "fabs (Fin a) = Fin \<bar>a\<bar>"
| "fabs NaN = NaN"
| "fabs _ = PInf"

text \<open>
  Python's \<^verbatim>\<open>max(a, b)\<close> returns \<open>a\<close> unless \<open>b > a\<close>, so \<^verbatim>\<open>max(0.0, nan)\<close> is \<open>0.0\<close>.
\<close>

definition py_max :: "fl \<Rightarrow> fl \<Rightarrow> fl" where
  "py_max a b = (if fgt b a then b else a)"

text \<open>
  Python's \<^verbatim>\<open>x or d\<close> on a float \<open>x\<close>: \<open>x\<close> when \<open>x\<close> is truthy, else \<open>d\<close>. A float is falsy
  only when it equals zero: \<open>NaN\<close> and the infinities are truthy.
\<close>

definition truthy :: "fl \<Rightarrow> bool" where
  "truthy x = (x \<noteq> Fin 0)"

definition py_or :: "fl \<Rightarrow> fl \<Rightarrow> fl" where
  "py_or x d = (if truthy x then x else d)"

subsection \<open>Errors\<close>

datatype error =
    ValueError_missing_columns "string list"
      \<comment> \<open>\<^verbatim>\<open>ValueError(f"Missing required columns: {missing}")\<close>\<close>
  | ValueError_nan_to_integer
      \<comment> \<open>\<^verbatim>\<open>int(nan)\<close>, \<^verbatim>\<open>math.ceil(nan)\<close>, \<^verbatim>\<open>math.floor(nan)\<close>\<close>
  | OverflowError_infinity_to_integer
      \<comment> \<open>\<^verbatim>\<open>int(inf)\<close>, \<^verbatim>\<open>math.ceil(inf)\<close>, \<^verbatim>\<open>math.floor(inf)\<close>\<close>
  | OverflowError_date_out_of_range
      \<comment> \<open>\<^verbatim>\<open>today + timedelta(days=n)\<close> past \<^verbatim>\<open>date.max\<close>\<close>
  | OverflowError_int_too_large
      \<comment> \<open>\<^verbatim>\<open>float(i)\<close>, or \<open>i\<close> as an operand of float arithmetic, beyond the range of a float\<close>

text \<open>\<^verbatim>\<open>int(x)\<close> truncates towards zero; \<^verbatim>\<open>math.ceil\<close> and \<^verbatim>\<open>math.floor\<close> round.\<close>

fun py_int :: "fl \<Rightarrow> error + int" where
  "py_int (Fin a) = Inr (if a < 0 then \<lceil>a\<rceil> else \<lfloor>a\<rfloor>)"
| "py_int NaN = Inl ValueError_nan_to_integer"
| "py_int _ = Inl OverflowError_infinity_to_integer"

fun math_ceil :: "fl \<Rightarrow> error + int" where
  "math_ceil (Fin a) = Inr \<lceil>a\<rceil>"
| "math_ceil NaN = Inl ValueError_nan_to_integer"
| "math_ceil _ = Inl OverflowError_infinity_to_integer"

fun math_floor :: "fl \<Rightarrow> error + int" where
  "math_floor (Fin a) = Inr \<lfloor>a\<rfloor>"
| "math_floor NaN = Inl ValueError_nan_to_integer"
| "math_floor _ = Inl OverflowError_infinity_to_integer"

text \<open>
  \<^verbatim>\<open>float(i)\<close>, and the conversion of an integer operand of \<open>*\<close>, \<open>/\<close> or \<open>-\<close> with a float:
  the nearest float, or \<^verbatim>\<open>OverflowError\<close> when that is infinite.
\<close>

definition float_of_int :: "int \<Rightarrow> error + fl" where
  "float_of_int i =
     (case round64 (of_int i) of
        Fin r \<Rightarrow> Inr (Fin r)
      | _ \<Rightarrow> Inl OverflowError_int_too_large)"

fun bind_error :: "error + 'a \<Rightarrow> ('a \<Rightarrow> error + 'b) \<Rightarrow> error + 'b" where
  "bind_error (Inl e) f = Inl e"
| "bind_error (Inr v) f = f v"

subsection \<open>\<^verbatim>\<open>_ceil_to_moq\<close>\<close>

text \<open>
  \<^verbatim>\<open>
  def _ceil_to_moq(qty: float, moq: int | None) -> float:
      if moq is None or moq <= 0:
          return float(max(0, qty))
      if qty <= 0:
          return 0.0
      return float(int(math.ceil(qty / moq) * moq))
  \<close>
\<close>

fun ceil_to_moq :: "fl \<Rightarrow> int option \<Rightarrow> error + fl" where
  "ceil_to_moq qty None = Inr (py_max (Fin 0) qty)"
| "ceil_to_moq qty (Some m) =
     (if m \<le> 0 then Inr (py_max (Fin 0) qty)
      else if fle qty (Fin 0) then Inr (Fin 0)
      else bind_error (float_of_int m) (\<lambda>fm.
           bind_error (math_ceil (fdiv qty fm)) (\<lambda>c.
           float_of_int (c * m))))"

subsection \<open>Text formatting\<close>

text \<open>
  \<^verbatim>\<open>str(i)\<close> for an integer, and the f-string formats \<^verbatim>\<open>{x:.0f}\<close> and \<^verbatim>\<open>{x:.1f}\<close> for a
  float: the value rounded to \<open>k\<close> decimals, ties to even, \<^verbatim>\<open>nan\<close> and \<^verbatim>\<open>inf\<close> by name.
\<close>

function digits :: "nat \<Rightarrow> string" where
  "digits n = (if n < 10 then [''0123456789'' ! n] else digits (n div 10) @ [''0123456789'' ! (n mod 10)])"
  by pat_completeness auto
termination
  by (relation "measure id") auto

declare digits.simps [simp del]

definition str_int :: "int \<Rightarrow> string" where
  "str_int i = (if i < 0 then ''-'' @ digits (nat (- i)) else digits (nat i))"

definition fmt_fixed :: "nat \<Rightarrow> rat \<Rightarrow> string" where
  "fmt_fixed k q =
     (let ds = digits (nat (round_half_even (\<bar>q\<bar> * 10 ^ k)));
          padded = replicate (Suc k - length ds) (CHR ''0'') @ ds;
          whole = take (length padded - k) padded;
          frac = drop (length padded - k) padded
      in (if q < 0 then ''-'' else []) @ whole @ (if k = 0 then [] else ''.'' @ frac))"

fun fmt_f :: "nat \<Rightarrow> fl \<Rightarrow> string" where
  "fmt_f k (Fin q) = fmt_fixed k q"
| "fmt_f k PInf = ''inf''"
| "fmt_f k NInf = ''-inf''"
| "fmt_f k NaN = ''nan''"

subsection \<open>The table\<close>

text \<open>
  A \<^verbatim>\<open>DataFrame\<close> is its list of column names and its rows. A row holds one cell for
  each column the code reads; the cell of a column that is not in \<open>columns\<close> is never
  read. \<open>'d\<close> is the type of a date cell, \<open>'n\<close> of a cell of a required numeric column
  and \<open>'o\<close> of a cell of an optional column (\<^verbatim>\<open>MOQ\<close>, \<^verbatim>\<open>Cost\<close>). A SKU cell is a text, or
  missing (\<open>None\<close>).
\<close>

record ('d, 'n, 'o) row =
  SKU :: "string option"
  Date :: 'd
  UnitsSold :: 'n
  OnHand :: 'n
  LeadTimeDays :: 'n
  MOQ :: 'o
  Cost :: 'o

record ('d, 'n) dataframe =
  columns :: "string list"
  rows :: "('d, 'n, 'n) row list"

text \<open>
  The cleaned rows: \<open>Date\<close> is a timestamp, the numeric cells are floats, and an optional
  column that the table does not have reads as \<open>None\<close>, the default of
  \<^verbatim>\<open>last.get("MOQ", None)\<close>.
\<close>

type_synonym clean_row = "(int, fl, fl option) row"

text \<open>The two pandas parsers the code calls with \<^verbatim>\<open>errors="coerce"\<close>.\<close>

record ('d, 'n) pandas =
  to_datetime :: "'d \<Rightarrow> int option"
  to_numeric :: "'n \<Rightarrow> fl"

text \<open>
  The state of the process around a call: the clock that \<^verbatim>\<open>date.today()\<close> reads, and
  the module's globals of the authenticated variant.
\<close>

record process =
  clock_today :: int
  CLERK_JWKS_URL :: string
  CLERK_ISSUER :: string
  jwks_client_cache :: "string option"

record recommendation =
  sku :: string
  current_stock :: fl
  avg_daily_sales :: fl
  forecast_30d :: fl
  reorder_qty :: fl
  reorder_by :: "int option"
  lead_time_days :: int
  moq :: "int option"
  unit_cost :: "fl option"
  status :: string
  reason :: string

subsection \<open>pandas and datetime operations\<close>

definition ns_per_day :: int where
  "ns_per_day = 86400000000000"

definition Timedelta_days :: "int \<Rightarrow> int" where
  "Timedelta_days n = n * ns_per_day"

text \<open>\<^verbatim>\<open>.dt.date\<close>: the calendar day of a timestamp.\<close>

definition dt_date :: "int \<Rightarrow> int" where
  "dt_date t = t div ns_per_day"

text \<open>\<^verbatim>\<open>g["Date"].max()\<close> of a group, which is never empty.\<close>

definition Date_max :: "clean_row list \<Rightarrow> int" where
  "Date_max g = fold max (map Date (tl g)) (Date (hd g))"

text \<open>
  \<^verbatim>\<open>sum()\<close> and \<^verbatim>\<open>mean()\<close> skip \<open>NaN\<close>: the sum of nothing is 0, the mean of nothing is
  \<open>NaN\<close>. The values are added from left to right, and the mean is the sum divided by the
  count.
\<close>

definition nansum :: "fl list \<Rightarrow> fl" where
  "nansum xs = foldl fadd (Fin 0) (filter notna xs)"

definition nanmean :: "fl list \<Rightarrow> fl" where
  "nanmean xs =
     (let ys = filter notna xs
      in if ys = [] then NaN else fdiv (foldl fadd (Fin 0) ys) (Fin (of_nat (length ys))))"

text \<open>
  \<^verbatim>\<open>df.groupby("SKU")\<close>: one group for each SKU that occurs, in the order of the keys,
  each with its rows in the order of the table; rows with a missing SKU are in no group.
\<close>

definition groupby_SKU :: "clean_row list \<Rightarrow> (string \<times> clean_row list) list" where
  "groupby_SKU rs =
     map (\<lambda>k. (k, filter (\<lambda>r. SKU r = Some k) rs)) (sort (remdups (List.map_filter SKU rs)))"

text \<open>
  \<^verbatim>\<open>today + timedelta(days=n)\<close> raises \<^verbatim>\<open>OverflowError\<close> when the date leaves
  \<^verbatim>\<open>date.min\<close> .. \<^verbatim>\<open>date.max\<close>.
\<close>

definition date_add_days :: "int \<Rightarrow> int \<Rightarrow> error + int" where
  "date_add_days d n =
     (if 1 \<le> d + n \<and> d + n \<le> 3652059 then Inr (d + n) else Inl OverflowError_date_out_of_range)"

text \<open>
  \<^verbatim>\<open>list.sort\<close> with a key is stable and compares keys with \<open><\<close> only: each element goes
  before the first one whose key is greater.
\<close>

fun insert_by :: "('a \<Rightarrow> 'a \<Rightarrow> bool) \<Rightarrow> 'a \<Rightarrow> 'a list \<Rightarrow> 'a list" where
  "insert_by lt x [] = [x]"
| "insert_by lt x (y # ys) = (if lt x y then x # y # ys else y # insert_by lt x ys)"

definition list_sort :: "('a \<Rightarrow> 'a \<Rightarrow> bool) \<Rightarrow> 'a list \<Rightarrow> 'a list" where
  "list_sort lt xs = foldl (\<lambda>acc x. insert_by lt x acc) [] xs"

text \<open>The loop over the groups stops at the first exception.\<close>

fun collect :: "('a \<Rightarrow> error + 'b) \<Rightarrow> 'a list \<Rightarrow> error + 'b list" where
  "collect f [] = Inr []"
| "collect f (x # xs) =
     (case f x of
        Inl e \<Rightarrow> Inl e
      | Inr y \<Rightarrow> (case collect f xs of Inl e \<Rightarrow> Inl e | Inr ys \<Rightarrow> Inr (y # ys)))"

subsection \<open>\<^verbatim>\<open>compute_recommendations\<close> (src/backend/main.py)\<close>

definition REQUIRED_COLS :: "string list" where
  "REQUIRED_COLS = [''SKU'', ''Date'', ''UnitsSold'', ''OnHand'', ''LeadTimeDays'']"

definition parse_date_series :: "('d, 'n) pandas \<Rightarrow> 'd list \<Rightarrow> int option list" where
  "parse_date_series pd s = map (to_datetime pd) s"

text \<open>Line 114: \<^verbatim>\<open>missing = [c for c in REQUIRED_COLS if c not in df.columns]\<close>.\<close>

definition missing_columns :: "('d, 'n) dataframe \<Rightarrow> string list" where
  "missing_columns df = filter (\<lambda>c. c \<notin> set (columns df)) REQUIRED_COLS"

text \<open>
  Lines 118 to 124: the dates are parsed, the rows whose date is \<^verbatim>\<open>NaT\<close> are dropped, and
  each numeric column that the table has is coerced.
\<close>

definition clean :: "('d, 'n) pandas \<Rightarrow> ('d, 'n) dataframe \<Rightarrow> clean_row list" where
  "clean pd df =
     List.map_filter
       (\<lambda>(r, d). case d of
            None \<Rightarrow> None
          | Some t \<Rightarrow>
              Some \<lparr>SKU = SKU r, Date = t,
                    UnitsSold = to_numeric pd (UnitsSold r),
                    OnHand = to_numeric pd (OnHand r),
                    LeadTimeDays = to_numeric pd (LeadTimeDays r),
                    MOQ = (if ''MOQ'' \<in> set (columns df) then Some (to_numeric pd (MOQ r)) else None),
                    Cost = (if ''Cost'' \<in> set (columns df) then Some (to_numeric pd (Cost r)) else None)\<rparr>)
       (zip (rows df) (parse_date_series pd (map Date (rows df))))"

text \<open>Lines 142 and 143: the rows of the last 28 days of the group.\<close>

definition recent_rows :: "clean_row list \<Rightarrow> clean_row list" where
  "recent_rows g = filter (\<lambda>r. Date_max g - Timedelta_days 28 \<le> Date r) g"

text \<open>Line 147: the units sold of each calendar day of the window, summed.\<close>

definition daily_sums :: "clean_row list \<Rightarrow> fl list" where
  "daily_sums recent =
     map (\<lambda>d. nansum (map UnitsSold (filter (\<lambda>r. dt_date (Date r) = d) recent)))
       (sort (remdups (map (\<lambda>r. dt_date (Date r)) recent)))"

text \<open>Lines 142 to 148.\<close>

definition avg_daily_of :: "clean_row list \<Rightarrow> fl" where
  "avg_daily_of g =
     (let recent = (if recent_rows g = [] then g else recent_rows g);
          daily = daily_sums recent
      in if daily \<noteq> [] then nanmean daily else Fin 0)"

text \<open>Lines 175 to 187: the trend of the last 14 days against the 14 days before.\<close>

definition trend_note_of :: "clean_row list \<Rightarrow> string" where
  "trend_note_of g =
     (let recent14 = filter (\<lambda>r. Date_max g - Timedelta_days 14 \<le> Date r) g;
          prev14 = filter (\<lambda>r. Date r < Date_max g - Timedelta_days 14
                               \<and> Date_max g - Timedelta_days 28 \<le> Date r) g
      in if recent14 \<noteq> [] \<and> prev14 \<noteq> [] then
           (let r = nanmean (map UnitsSold recent14);
                p = nanmean (map UnitsSold prev14)
            in if fgt p (Fin 0) then
                 (let pct = fmul (fdiv (fsub r p) p) (Fin 100)
                  in if fge (fabs pct) (Fin 10)
                     then '' Demand changed ~'' @ fmt_f 0 pct @ ''% vs prior 2 weeks.''
                     else [])
               else [])
         else [])"

text \<open>
  Lines 130 to 210: the body of the loop, for the group \<open>g0\<close> of the key \<open>k\<close>. The steps
  that can raise are taken in the order of the source: \<^verbatim>\<open>int(...)\<close> of the lead time,
  \<^verbatim>\<open>int(moq_val)\<close>, the conversion of \<^verbatim>\<open>horizon_days\<close> and of \<^verbatim>\<open>horizon_days + max(lead_time,
  0)\<close> in the two products, \<^verbatim>\<open>_ceil_to_moq\<close>, the date of \<^verbatim>\<open>reorder_by\<close>. \<open>sort_key\<close> is a stable
  sort; \<^verbatim>\<open>last.get("OnHand", 0)\<close> and \<^verbatim>\<open>last.get("LeadTimeDays", 0)\<close> find their column,
  which the column guard has checked.
\<close>

definition sku_recommendation ::
  "int \<Rightarrow> int \<Rightarrow> string \<times> clean_row list \<Rightarrow> error + recommendation" where
  "sku_recommendation today horizon_days kg =
     (let g = sort_key Date (snd kg);
          lst = last g;
          on_hand = py_or (OnHand lst) (Fin 0)
      in bind_error (py_int (py_or (LeadTimeDays lst) (Fin 0))) (\<lambda>lead_time.
         bind_error (case MOQ lst of
                       None \<Rightarrow> Inr None
                     | Some moq_val \<Rightarrow>
                         if notna moq_val then bind_error (py_int moq_val) (\<lambda>m. Inr (Some m))
                         else Inr None) (\<lambda>moq.
         let unit_cost = (case Cost lst of
                            None \<Rightarrow> None
                          | Some cost_val \<Rightarrow> if notna cost_val then Some cost_val else None);
             avg_daily = avg_daily_of g
         in bind_error (float_of_int horizon_days) (\<lambda>horizon.
         bind_error (float_of_int (horizon_days + max lead_time 0)) (\<lambda>cover.
         let forecast = fmul avg_daily horizon;
             target_stock = fmul avg_daily cover;
             reorder_qty_raw = py_max (Fin 0) (fsub target_stock on_hand)
         in bind_error (ceil_to_moq reorder_qty_raw moq) (\<lambda>qty.
         let days_until_stockout =
               (if fgt avg_daily (Fin 0) then fdiv on_hand avg_daily else PInf)
         in bind_error
              (if isfinite days_until_stockout then
                 bind_error (float_of_int lead_time) (\<lambda>lead.
                 bind_error (math_floor (fsub days_until_stockout lead)) (\<lambda>n.
                 bind_error (date_add_days today (max 0 n)) (\<lambda>d. Inr (Some d))))
               else Inr None) (\<lambda>by_date.
         Inr \<lparr>sku = fst kg,
              current_stock = on_hand,
              avg_daily_sales = avg_daily,
              forecast_30d = forecast,
              reorder_qty = qty,
              reorder_by = by_date,
              lead_time_days = lead_time,
              moq = moq,
              unit_cost = unit_cost,
              status =
                (if feq avg_daily (Fin 0) then ''GREEN''
                 else if fle days_until_stockout (of_int_fl lead_time) then ''RED''
                 else if fle days_until_stockout (of_int_fl (lead_time + 7)) then ''AMBER''
                 else ''GREEN''),
              reason =
                (if feq avg_daily (Fin 0)
                 then ''No recent sales detected; no reorder recommendation.''
                 else ''Avg daily sales '' @ fmt_f 1 avg_daily
                    @ ''. Lead time '' @ str_int lead_time @ ''d. ''
                    @ ''Forecast next '' @ str_int horizon_days @ ''d '' @ fmt_f 0 forecast @ ''. ''
                    @ ''Recommend reorder '' @ fmt_f 0 qty @ '' to cover horizon + lead time.''
                    @ trend_note_of g)\<rparr>)))))))"

text \<open>
  Lines 212 and 213: \<^verbatim>\<open>order.get(r.status, 9)\<close>, the key \<^verbatim>\<open>(order.get(r.status, 9),
  -r.reorder_qty)\<close>, the comparison of two such tuples, and the sort.
\<close>

definition order_get :: "string \<Rightarrow> nat" where
  "order_get s =
     (if s = ''RED'' then 0 else if s = ''AMBER'' then 1 else if s = ''GREEN'' then 2 else 9)"

definition rec_key :: "recommendation \<Rightarrow> nat \<times> fl" where
  "rec_key r = (order_get (status r), fneg (reorder_qty r))"

fun tuple_lt :: "nat \<times> fl \<Rightarrow> nat \<times> fl \<Rightarrow> bool" where
  "tuple_lt (a, x) (b, y) = (if a \<noteq> b then a < b else flt x y)"

definition sort_recs :: "recommendation list \<Rightarrow> recommendation list" where
  "sort_recs recs = list_sort (\<lambda>r s. tuple_lt (rec_key r) (rec_key s)) recs"

definition compute_recommendations ::
  "('d, 'n) pandas \<Rightarrow> process \<Rightarrow> ('d, 'n) dataframe \<Rightarrow> int \<Rightarrow> error + recommendation list" where
  "compute_recommendations pd ps df horizon_days =
     (let missing = missing_columns df
      in if missing \<noteq> [] then Inl (ValueError_missing_columns missing)
         else
           (let today = clock_today ps
            in bind_error (collect (sku_recommendation today horizon_days) (groupby_SKU (clean pd df)))
                 (\<lambda>recs. Inr (sort_recs recs))))"

subsection \<open>\<^verbatim>\<open>compute_recommendations\<close> (src/backend/app/main.py)\<close>

text \<open>
  The unauthenticated variant has its own \<^verbatim>\<open>REQUIRED_COLS\<close>, \<^verbatim>\<open>_ceil_to_moq\<close>,
  \<^verbatim>\<open>_parse_date_series\<close> and \<^verbatim>\<open>compute_recommendations\<close> (lines 9, 34 to 39, 41 to 43 and
  45 to 148). They are embedded from that file, each under the name of its counterpart
  with the prefix \<open>app_\<close>, in the same pieces: the column guard (line 46), the cleaning
  (lines 50 to 57), the window (lines 74 and 75), the daily sums (line 79), the average
  (lines 74 to 80), the trend (lines 112 to 122), the body of the loop (lines 63 to 143)
  and the sort (lines 146 and 147). The module has no globals besides the constant; the
  clock that \<^verbatim>\<open>date.today()\<close> reads is the argument \<open>clock\<close>. Its \<^verbatim>\<open>Recommendation\<close>
  has the fields of the other module's, in the same order with the same types, and is
  the same record here.
\<close>

fun app_ceil_to_moq :: "fl \<Rightarrow> int option \<Rightarrow> error + fl" where
  "app_ceil_to_moq qty None = Inr (py_max (Fin 0) qty)"
| "app_ceil_to_moq qty (Some m) =
     (if m \<le> 0 then Inr (py_max (Fin 0) qty)
      else if fle qty (Fin 0) then Inr (Fin 0)
      else bind_error (float_of_int m) (\<lambda>fm.
           bind_error (math_ceil (fdiv qty fm)) (\<lambda>c.
           float_of_int (c * m))))"

definition app_REQUIRED_COLS :: "string list" where
  "app_REQUIRED_COLS = [''SKU'', ''Date'', ''UnitsSold'', ''OnHand'', ''LeadTimeDays'']"

definition app_parse_date_series :: "('d, 'n) pandas \<Rightarrow> 'd list \<Rightarrow> int option list" where
  "app_parse_date_series pd s = map (to_datetime pd) s"

definition app_missing_columns :: "('d, 'n) dataframe \<Rightarrow> string list" where
  "app_missing_columns df = filter (\<lambda>c. c \<notin> set (columns df)) app_REQUIRED_COLS"

definition app_clean :: "('d, 'n) pandas \<Rightarrow> ('d, 'n) dataframe \<Rightarrow> clean_row list" where
  "app_clean pd df =
     List.map_filter
       (\<lambda>(r, d). case d of
            None \<Rightarrow> None
          | Some t \<Rightarrow>
              Some \<lparr>SKU = SKU r, Date = t,
                    UnitsSold = to_numeric pd (UnitsSold r),
                    OnHand = to_numeric pd (OnHand r),
                    LeadTimeDays = to_numeric pd (LeadTimeDays r),
                    MOQ = (if ''MOQ'' \<in> set (columns df) then Some (to_numeric pd (MOQ r)) else None),
                    Cost = (if ''Cost'' \<in> set (columns df) then Some (to_numeric pd (Cost r)) else None)\<rparr>)
       (zip (rows df) (app_parse_date_series pd (map Date (rows df))))"

definition app_recent_rows :: "clean_row list \<Rightarrow> clean_row list" where
  "app_recent_rows g = filter (\<lambda>r. Date_max g - Timedelta_days 28 \<le> Date r) g"

definition app_daily_sums :: "clean_row list \<Rightarrow> fl list" where
  "app_daily_sums recent =
     map (\<lambda>d. nansum (map UnitsSold (filter (\<lambda>r. dt_date (Date r) = d) recent)))
       (sort (remdups (map (\<lambda>r. dt_date (Date r)) recent)))"

definition app_avg_daily_of :: "clean_row list \<Rightarrow> fl" where
  "app_avg_daily_of g =
     (let recent = (if app_recent_rows g = [] then g else app_recent_rows g);
          daily = app_daily_sums recent
      in if daily \<noteq> [] then nanmean daily else Fin 0)"

definition app_trend_note_of :: "clean_row list \<Rightarrow> string" where
  "app_trend_note_of g =
     (let recent14 = filter (\<lambda>r. Date_max g - Timedelta_days 14 \<le> Date r) g;
          prev14 = filter (\<lambda>r. Date r < Date_max g - Timedelta_days 14
                               \<and> Date_max g - Timedelta_days 28 \<le> Date r) g
      in if recent14 \<noteq> [] \<and> prev14 \<noteq> [] then
           (let r = nanmean (map UnitsSold recent14);
                p = nanmean (map UnitsSold prev14)
            in if fgt p (Fin 0) then
                 (let pct = fmul (fdiv (fsub r p) p) (Fin 100)
                  in if fge (fabs pct) (Fin 10)
                     then '' Demand changed ~'' @ fmt_f 0 pct @ ''% vs prior 2 weeks.''
                     else [])
               else [])
         else [])"

definition app_sku_recommendation ::
  "int \<Rightarrow> int \<Rightarrow> string \<times> clean_row list \<Rightarrow> error + recommendation" where
  "app_sku_recommendation today horizon_days kg =
     (let g = sort_key Date (snd kg);
          lst = last g;
          on_hand = py_or (OnHand lst) (Fin 0)
      in bind_error (py_int (py_or (LeadTimeDays lst) (Fin 0))) (\<lambda>lead_time.
         bind_error (case MOQ lst of
                       None \<Rightarrow> Inr None
                     | Some moq_val \<Rightarrow>
                         if notna moq_val then bind_error (py_int moq_val) (\<lambda>m. Inr (Some m))
                         else Inr None) (\<lambda>moq.
         let unit_cost = (case Cost lst of
                            None \<Rightarrow> None
                          | Some cost_val \<Rightarrow> if notna cost_val then Some cost_val else None);
             avg_daily = app_avg_daily_of g
         in bind_error (float_of_int horizon_days) (\<lambda>horizon.
         bind_error (float_of_int (horizon_days + max lead_time 0)) (\<lambda>cover.
         let forecast = fmul avg_daily horizon;
             target_stock = fmul avg_daily cover;
             reorder_qty_raw = py_max (Fin 0) (fsub target_stock on_hand)
         in bind_error (app_ceil_to_moq reorder_qty_raw moq) (\<lambda>qty.
         let days_until_stockout =
               (if fgt avg_daily (Fin 0) then fdiv on_hand avg_daily else PInf)
         in bind_error
              (if isfinite days_until_stockout then
                 bind_error (float_of_int lead_time) (\<lambda>lead.
                 bind_error (math_floor (fsub days_until_stockout lead)) (\<lambda>n.
                 bind_error (date_add_days today (max 0 n)) (\<lambda>d. Inr (Some d))))
               else Inr None) (\<lambda>by_date.
         Inr \<lparr>sku = fst kg,
              current_stock = on_hand,
              avg_daily_sales = avg_daily,
              forecast_30d = forecast,
              reorder_qty = qty,
              reorder_by = by_date,
              lead_time_days = lead_time,
              moq = moq,
              unit_cost = unit_cost,
              status =
                (if feq avg_daily (Fin 0) then ''GREEN''
                 else if fle days_until_stockout (of_int_fl lead_time) then ''RED''
                 else if fle days_until_stockout (of_int_fl (lead_time + 7)) then ''AMBER''
                 else ''GREEN''),
              reason =
                (if feq avg_daily (Fin 0)
                 then ''No recent sales detected; no reorder recommendation.''
                 else ''Avg daily sales '' @ fmt_f 1 avg_daily
                    @ ''. Lead time '' @ str_int lead_time @ ''d. ''
                    @ ''Forecast next '' @ str_int horizon_days @ ''d '' @ fmt_f 0 forecast @ ''. ''
                    @ ''Recommend reorder '' @ fmt_f 0 qty @ '' to cover horizon + lead time.''
                    @ app_trend_note_of g)\<rparr>)))))))"

definition app_order_get :: "string \<Rightarrow> nat" where
  "app_order_get s =
     (if s = ''RED'' then 0 else if s = ''AMBER'' then 1 else if s = ''GREEN'' then 2 else 9)"

definition app_rec_key :: "recommendation \<Rightarrow> nat \<times> fl" where
  "app_rec_key r = (app_order_get (status r), fneg (reorder_qty r))"

definition app_sort_recs :: "recommendation list \<Rightarrow> recommendation list" where
  "app_sort_recs recs = list_sort (\<lambda>r s. tuple_lt (app_rec_key r) (app_rec_key s)) recs"

definition app_compute_recommendations ::
  "('d, 'n) pandas \<Rightarrow> int \<Rightarrow> ('d, 'n) dataframe \<Rightarrow> int \<Rightarrow> error + recommendation list" where
  "app_compute_recommendations pd clock df horizon_days =
     (let missing = app_missing_columns df
      in if missing \<noteq> [] then Inl (ValueError_missing_columns missing)
         else
           (let today = clock
            in bind_error (collect (app_sku_recommendation today horizon_days) (groupby_SKU (app_clean pd df)))
                 (\<lambda>recs. Inr (app_sort_recs recs))))"

section \<open>Properties\<close>

subsection \<open>Errors, the loop and the sort\<close>

lemma bind_error_Inr: "bind_error x f = Inr r \<longleftrightarrow> (\<exists>v. x = Inr v \<and> f v = Inr r)"
  by (cases x) auto

lemma bind_error_Inl: "bind_error x f = Inl e \<longleftrightarrow> x = Inl e \<or> (\<exists>v. x = Inr v \<and> f v = Inl e)"
  by (cases x) auto

lemma collect_Inr_set:
  "collect f xs = Inr ys \<Longrightarrow> y \<in> set ys \<Longrightarrow> \<exists>x \<in> set xs. f x = Inr y"
  by (induction xs arbitrary: ys) (auto split: sum.splits)

lemma collect_Inl: "collect f xs = Inl e \<Longrightarrow> \<exists>x \<in> set xs. f x = Inl e"
  by (induction xs) (auto split: sum.splits)

lemma set_insert_by: "set (insert_by lt x xs) = insert x (set xs)"
  by (induction xs) auto

lemma set_foldl_insert_by:
  "set (foldl (\<lambda>acc x. insert_by lt x acc) acc xs) = set acc \<union> set xs"
  by (induction xs arbitrary: acc) (auto simp: set_insert_by)

lemma set_list_sort: "set (list_sort lt xs) = set xs"
  by (simp add: list_sort_def set_foldl_insert_by)

lemma fgt_not_feq: "fgt a (Fin 0) \<Longrightarrow> \<not> feq a (Fin 0)"
  by (cases a) (auto simp: fgt_def)

lemma reorder_by_None:
  "(if isfinite d then
      bind_error (float_of_int l) (\<lambda>lead.
      bind_error (math_floor (fsub d lead)) (\<lambda>n.
      bind_error (date_add_days today (max 0 n)) (\<lambda>d. Inr (Some d))))
    else Inr None) = Inr b \<Longrightarrow> (b = None \<longleftrightarrow> \<not> isfinite d)"
  by (auto simp: bind_error_Inr split: if_splits)

lemma sku_recommendation_Inr:
  assumes "sku_recommendation today h kg = Inr r"
  shows "(\<exists>cover. float_of_int (h + max (lead_time_days r) 0) = Inr cover
           \<and> ceil_to_moq
                (py_max (Fin 0) (fsub (fmul (avg_daily_sales r) cover) (current_stock r)))
                (moq r) = Inr (reorder_qty r))
    \<and> (reorder_by r = None \<longleftrightarrow>
           \<not> isfinite (if fgt (avg_daily_sales r) (Fin 0)
                        then fdiv (current_stock r) (avg_daily_sales r) else PInf))
    \<and> (\<exists>horizon. float_of_int h = Inr horizon
           \<and> forecast_30d r = fmul (avg_daily_sales r) horizon)
    \<and> status r =
           (if feq (avg_daily_sales r) (Fin 0) then ''GREEN''
            else if fle (if fgt (avg_daily_sales r) (Fin 0)
                         then fdiv (current_stock r) (avg_daily_sales r) else PInf)
                        (of_int_fl (lead_time_days r)) then ''RED''
            else if fle (if fgt (avg_daily_sales r) (Fin 0)
                         then fdiv (current_stock r) (avg_daily_sales r) else PInf)
                        (of_int_fl (lead_time_days r + 7)) then ''AMBER''
            else ''GREEN'')
    \<and> (feq (avg_daily_sales r) (Fin 0) \<longrightarrow>
           reason r = ''No recent sales detected; no reorder recommendation.'')"
  using assms
  apply (simp only: sku_recommendation_def Let_def bind_error_Inr)
  apply (elim exE conjE)
  apply (drule reorder_by_None)
  apply (simp only: sum.inject)
  apply hypsubst
  apply (simp only: recommendation.simps)
  apply simp
  done

lemma compute_recommendations_member:
  assumes "compute_recommendations pd ps df h = Inr out" and "r \<in> set out"
  shows "\<exists>kg \<in> set (groupby_SKU (clean pd df)). sku_recommendation (clock_today ps) h kg = Inr r"
proof -
  from assms(1) obtain recs where
    c: "collect (sku_recommendation (clock_today ps) h) (groupby_SKU (clean pd df)) = Inr recs"
    and o: "out = sort_recs recs"
    by (auto simp: compute_recommendations_def Let_def bind_error_Inr split: if_splits)
  from o assms(2) have "r \<in> set recs"
    by (simp add: sort_recs_def set_list_sort)
  with c show ?thesis by (rule collect_Inr_set)
qed

subsection \<open>Rounding\<close>

text \<open>
  The exponent that \<open>ilog2\<close> finds is not too large, so the rounded value is within half
  a unit in the last place; an integer of magnitude up to \<open>2\<^sup>5\<^sup>3\<close> is a float. The last lemma
  gives the evaluation a shortcut for such integers.
\<close>

lemma ilog2_le:
  assumes "0 < q"
  shows "2 powi (ilog2 q) \<le> q"
proof -
  obtain a b where ab: "quotient_of q = (a, b)" by force
  then have b: "0 < b" and q: "q = of_int a / of_int b"
    by (simp_all add: quotient_of_denom_pos quotient_of_div)
  from assms q b have a: "0 < a"
    by (simp add: zero_less_divide_iff)
  let ?d = "bitlen a - bitlen b"
  show ?thesis
  proof (cases "2 powi ?d \<le> q")
    case True
    then show ?thesis by (simp add: ilog2_def ab)
  next
    case False
    have la: "1 \<le> bitlen a"
      using a by (simp add: bitlen_alt_def)
    have "(2::rat) powi (?d - 1) = 2 powi (bitlen a - 1) / 2 powi bitlen b"
      using power_int_diff [of "2::rat" "bitlen a - 1" "bitlen b"] by (simp add: algebra_simps)
    also have "(2::rat) powi (bitlen a - 1) = 2 ^ nat (bitlen a - 1)"
      using la by (simp add: power_int_nonneg_exp)
    also have "(2::rat) powi bitlen b = 2 ^ nat (bitlen b)"
      by (simp add: power_int_nonneg_exp bitlen_nonneg)
    also have "(2::rat) ^ nat (bitlen a - 1) / 2 ^ nat (bitlen b) \<le> of_int a / of_int b"
    proof (rule frac_le)
      have "(2::int) ^ nat (bitlen a - 1) \<le> a"
        using bitlen_bounds [OF a] by simp
      then have "(of_int (2 ^ nat (bitlen a - 1)) :: rat) \<le> of_int a"
        by (simp only: of_int_le_iff)
      then show "(2::rat) ^ nat (bitlen a - 1) \<le> of_int a" by simp
      have "b < 2 ^ nat (bitlen b)"
        using bitlen_bounds [OF b] by simp
      then have "(of_int b :: rat) < of_int (2 ^ nat (bitlen b))"
        by (simp only: of_int_less_iff)
      then show "(of_int b :: rat) \<le> 2 ^ nat (bitlen b)" by simp
      show "(0::rat) < of_int b" using b by simp
    qed (use a in simp)
    finally have "(2::rat) powi (?d - 1) \<le> q" by (simp add: q)
    with False show ?thesis by (simp add: ilog2_def ab)
  qed
qed

lemma round_half_even_of_int: "round_half_even (of_int z) = z"
  by (simp add: round_half_even_def)

lemma round_half_even_error: "\<bar>of_int (round_half_even x) - x\<bar> \<le> 1 / 2"
proof -
  define f where "f = \<lfloor>x\<rfloor>"
  define d where "d = x - of_int f"
  have d: "0 \<le> d" "d < 1"
    unfolding d_def f_def by linarith+
  have x: "x = of_int f + d"
    by (simp add: d_def)
  have "round_half_even x =
      (if d < 1 / 2 then f else if 1 / 2 < d then f + 1 else if even f then f else f + 1)"
    by (simp add: round_half_even_def Let_def f_def d_def)
  then show ?thesis
    using d by (auto simp: x abs_if)
qed

lemma ilog2_upper:
  assumes "0 < q" and "q < 2 powi k"
  shows "ilog2 q < k"
proof (rule ccontr)
  assume "\<not> ilog2 q < k"
  then have "(2::rat) powi k \<le> 2 powi ilog2 q"
    by (intro power_int_increasing) auto
  with ilog2_le [OF assms(1)] assms(2) show False by simp
qed

lemma round64_pos:
  assumes "0 < x" and "e = max (ilog2 x) (- 1022)" and "e < 1023"
  shows "round64 x = Fin (of_int (round_half_even (x / 2 powi (e - 52))) * 2 powi (e - 52))"
  using assms(1,3) unfolding assms(2)
  by (auto simp: round64_def Let_def max_def)

lemma round64_error:
  assumes lo: "2 powi (- 1022) \<le> x" and hi: "x < 2 ^ 1023"
  shows "\<exists>r. round64 x = Fin r \<and> \<bar>r - x\<bar> \<le> x / 2 ^ 53"
proof -
  have pos: "0 < x"
    using lo zero_less_power_int [of "2::rat" "- 1022"] by linarith
  define e where "e = max (ilog2 x) (- 1022)"
  define u :: rat where "u = 2 powi (e - 52)"
  define n where "n = round_half_even (x / u)"
  have "x < 2 powi 1023"
    using hi by simp
  then have "ilog2 x < 1023"
    using pos by (intro ilog2_upper)
  then have e_hi: "e < 1023"
    by (simp add: e_def)
  have e_le: "2 powi e \<le> x"
    using ilog2_le [OF pos] lo by (simp add: e_def max_def)
  have u_pos: "0 < u"
    by (simp add: u_def)
  have "u = 2 powi e / 2 powi 52"
    unfolding u_def by (rule power_int_diff) simp
  then have u_le: "u \<le> x / 2 ^ 52"
    using e_le by (simp add: divide_right_mono)
  have r: "round64 x = Fin (of_int n * u)"
    unfolding n_def u_def by (rule round64_pos [OF pos e_def e_hi])
  have "\<bar>of_int n - x / u\<bar> \<le> 1 / 2"
    unfolding n_def by (rule round_half_even_error)
  then have "\<bar>of_int n - x / u\<bar> * u \<le> 1 / 2 * u"
    using u_pos by (intro mult_right_mono) auto
  moreover have "\<bar>of_int n - x / u\<bar> * u = \<bar>of_int n * u - x\<bar>"
  proof -
    have "of_int n * u - x = (of_int n - x / u) * u"
      using u_pos by (simp add: field_simps)
    then show ?thesis
      using u_pos by (simp add: abs_mult)
  qed
  ultimately have "\<bar>of_int n * u - x\<bar> \<le> u / 2"
    by simp
  also have "u / 2 \<le> x / 2 ^ 53"
    using u_le by simp
  finally show ?thesis
    using r by blast
qed

lemma round64_of_int:
  assumes "\<bar>i\<bar> \<le> 2 ^ 53"
  shows "round64 (of_int i) = Fin (of_int i)"
proof (cases "i = 0")
  case True
  then show ?thesis by (simp add: round64_def)
next
  case False
  define q :: rat where "q = of_int \<bar>i\<bar>"
  have q_pos: "0 < q" and q_ge: "1 \<le> q"
    using False by (simp_all add: q_def)
  have q_le: "q \<le> 2 ^ 53"
  proof -
    have "(of_int \<bar>i\<bar> :: rat) \<le> of_int (2 ^ 53)"
      using assms by (simp only: of_int_le_iff)
    then show ?thesis by (simp add: q_def)
  qed
  define e where "e = max (ilog2 q) (- 1022)"
  define u :: rat where "u = 2 powi (e - 52)"
  have "q < 2 powi 54"
    using q_le by simp
  then have "ilog2 q < 54"
    using q_pos by (intro ilog2_upper)
  then have e_hi: "e \<le> 53"
    by (simp add: e_def)
  have u_pos: "0 < u"
    by (simp add: u_def)
  have "\<exists>z. q / u = of_int z"
  proof (cases "e \<le> 52")
    case True
    have "u = 2 powi (- (52 - e))"
      by (simp add: u_def)
    also have "\<dots> = inverse (2 powi (52 - e))"
      by (rule power_int_minus)
    also have "(2::rat) powi (52 - e) = 2 ^ nat (52 - e)"
      using True by (simp add: power_int_nonneg_exp)
    finally have "q / u = q * 2 ^ nat (52 - e)"
      by (simp only: divide_inverse inverse_inverse_eq)
    also have "\<dots> = of_int (\<bar>i\<bar> * 2 ^ nat (52 - e))"
      by (simp add: q_def)
    finally show ?thesis by blast
  next
    case e: False
    with e_hi have e53: "e = 53" by simp
    then have "ilog2 q = 53"
      by (simp add: e_def max_def split: if_splits)
    with ilog2_le [OF q_pos] have "2 ^ 53 \<le> q" by simp
    with q_le have "q = 2 ^ 53" by simp
    then have "q / u = of_int (2 ^ 52)"
      by (simp add: u_def e53)
    then show ?thesis by blast
  qed
  then obtain z where z: "q / u = of_int z" by blast
  then have n: "of_int (round_half_even (q / u)) * u = q"
    using u_pos by (simp add: round_half_even_of_int field_simps)
  have abs: "\<bar>of_int i :: rat\<bar> = q"
    by (simp add: q_def)
  have "\<not> (1023 < e \<or> (e = 1023 \<and> round_half_even (q / u) = 9007199254740992))"
    using e_hi by simp
  moreover have "(of_int i :: rat) \<noteq> 0"
    using False by simp
  ultimately have "round64 (of_int i) = Fin (if (of_int i :: rat) < 0 then - q else q)"
    unfolding round64_def Let_def abs e_def [symmetric] u_def [symmetric] n
    by (simp only: if_False)
  also have "(if (of_int i :: rat) < 0 then - q else q) = of_int i"
    by (simp add: q_def)
  finally show ?thesis .
qed

lemma round64_code [code]:
  "round64 q =
     (if snd (quotient_of q) = 1 \<and> \<bar>fst (quotient_of q)\<bar> \<le> 9007199254740992 then Fin q
      else if q = 0 then Fin 0
      else
        (let e = max (ilog2 \<bar>q\<bar>) (- 1022);
             u = 2 powi (e - 52);
             n = round_half_even (\<bar>q\<bar> / u)
         in if 1023 < e \<or> (e = 1023 \<and> n = 9007199254740992)
            then (if q < 0 then NInf else PInf)
            else Fin (if q < 0 then - (of_int n * u) else of_int n * u)))"
proof (cases "snd (quotient_of q) = 1 \<and> \<bar>fst (quotient_of q)\<bar> \<le> 9007199254740992")
  case True
  obtain a b where ab: "quotient_of q = (a, b)" by force
  with True have "q = of_int a" and "\<bar>a\<bar> \<le> 2 ^ 53"
    using quotient_of_div [OF ab] by simp_all
  then show ?thesis
    using True round64_of_int [of a] by simp
next
  case False
  then show ?thesis
    by (simp only: round64_def if_False)
qed

lemma round64_numeral:
  "(numeral k :: int) \<le> 2 ^ 53 \<Longrightarrow> round64 (numeral k) = Fin (numeral k)"
  using round64_of_int [of "numeral k"] by simp

subsection \<open>Rounding to the minimum order quantity\<close>

text \<open>
  \<^verbatim>\<open>_ceil_to_moq\<close> divides in binary64, takes the ceiling as an integer, multiplies by
  \<open>moq\<close> as an integer and converts the product back to binary64. The quotient is rounded, so
  its ceiling is the exact one only as long as the rounding error stays below the distance of
  the exact quotient to the next integer; the lemmas below show this for quantities up to
  \<open>2 ^ 53\<close>.
\<close>

lemma ceiling_multiple_least:
  fixes q :: rat and m :: int
  assumes "0 < m"
  shows "q \<le> of_int (\<lceil>q / of_int m\<rceil> * m)"
    and "q \<le> of_int (j * m) \<Longrightarrow> \<lceil>q / of_int m\<rceil> * m \<le> j * m"
proof -
  have m: "(0::rat) < of_int m" using assms by simp
  have "q / of_int m \<le> of_int \<lceil>q / of_int m\<rceil>" by (rule le_of_int_ceiling)
  then have "q \<le> of_int \<lceil>q / of_int m\<rceil> * of_int m"
    by (simp only: pos_divide_le_eq [OF m])
  then show "q \<le> of_int (\<lceil>q / of_int m\<rceil> * m)" by simp
next
  have m: "(0::rat) < of_int m" using assms by simp
  assume "q \<le> of_int (j * m)"
  then have "q / of_int m \<le> of_int j"
    by (simp only: pos_divide_le_eq [OF m] of_int_mult)
  then have "\<lceil>q / of_int m\<rceil> \<le> j" by (simp add: ceiling_le_iff)
  then show "\<lceil>q / of_int m\<rceil> * m \<le> j * m"
    using assms by (simp add: mult_right_mono)
qed

lemma tiny_le_one: "(2::rat) powi (- 1022) \<le> 1"
proof -
  have "(2::rat) powi (- 1022) \<le> 2 powi 0"
    by (intro power_int_increasing) auto
  then show ?thesis by simp
qed

text \<open>
  The quotient of a float \<open>n / 2\<^sup>s\<close> by \<open>m\<close> is a multiple of \<open>1 / (2\<^sup>s * m)\<close>, and so is every
  integer: the quotient is either an integer or at least that far from the next one, which
  is more than the rounding error of the division.
\<close>

lemma ceiling_of_rounded_quotient:
  fixes q :: rat
  assumes m: "0 < m" and n: "0 < n" "n < 2 ^ 53" and q: "q = of_int n / 2 ^ s"
    and normal: "2 powi (- 1022) * of_int m \<le> q" and small: "q + of_int m \<le> 2 ^ 53"
  shows "\<exists>r. round64 (q / of_int m) = Fin r \<and> \<lceil>r\<rceil> = \<lceil>q / of_int m\<rceil>"
proof -
  define x where "x = q / of_int m"
  define k where "k = \<lceil>x\<rceil>"
  define D :: rat where "D = 2 ^ s * of_int m"
  have mr: "(0::rat) < of_int m" and m1: "(1::rat) \<le> of_int m"
    using m by simp_all
  have q_pos: "0 < q"
    using n by (simp add: q)
  have D_pos: "0 < D"
    using m by (simp add: D_def)
  have x_pos: "0 < x"
    using q_pos mr by (simp add: x_def)
  have xD: "x = of_int n / D"
    by (simp add: x_def q D_def)
  have x_le_q: "x \<le> q"
  proof -
    have "q / of_int m \<le> q / 1"
      using q_pos m1 by (intro divide_left_mono) auto
    then show ?thesis by (simp add: x_def)
  qed
  have q_lt: "q < 2 ^ 53"
    using small mr by linarith
  have lo: "2 powi (- 1022) \<le> x"
    using normal mr by (simp add: x_def pos_le_divide_eq)
  have hi: "x < 2 ^ 1023"
  proof -
    have "(2::rat) ^ 53 \<le> 2 ^ 1023"
      by (intro power_increasing) auto
    with x_le_q q_lt show ?thesis by linarith
  qed
  define E where "E = x / 2 ^ 53"
  define T where "T = 1 / D"
  from round64_error [OF lo hi] obtain r where r: "round64 x = Fin r"
    and "\<bar>r - x\<bar> \<le> x / 2 ^ 53"
    by blast
  then have err: "x - r \<le> E" "r - x \<le> E"
    unfolding E_def by (simp_all only: abs_le_iff minus_diff_eq)
  have err_lt: "E < T"
  proof -
    have "(of_int n :: rat) < of_int (2 ^ 53)"
      using n(2) by (simp only: of_int_less_iff)
    then have "(of_int n :: rat) / 2 ^ 53 < 1"
      by simp
    then have "of_int n / 2 ^ 53 / D < 1 / D"
      using D_pos by (intro divide_strict_right_mono)
    then show ?thesis by (simp add: xD E_def T_def)
  qed
  have k_lo: "of_int k - 1 < x" and k_hi: "x \<le> of_int k"
    unfolding k_def by linarith+
  have k_pos: "0 < k"
    using x_pos k_hi by (simp add: k_def)
  have step_lo: "of_int k - 1 + T \<le> x"
  proof -
    have "(of_int k - 1) * D < of_int n"
      using k_lo D_pos by (simp add: xD pos_less_divide_eq)
    then have "(of_int ((k - 1) * 2 ^ s * m) :: rat) < of_int n"
      by (simp add: D_def algebra_simps)
    then have "(k - 1) * 2 ^ s * m < n"
      by (simp only: of_int_less_iff)
    then have "(k - 1) * 2 ^ s * m + 1 \<le> n"
      by simp
    then have "(of_int ((k - 1) * 2 ^ s * m + 1) :: rat) \<le> of_int n"
      by (simp only: of_int_le_iff)
    then have "(of_int k - 1) * D + 1 \<le> of_int n"
      by (simp add: D_def algebra_simps)
    then have "((of_int k - 1) * D + 1) / D \<le> of_int n / D"
      using D_pos by (intro divide_right_mono) auto
    then show ?thesis
      using D_pos by (simp add: xD T_def add_divide_distrib)
  qed
  have r_lo: "of_int k - 1 < r"
    using err err_lt step_lo by linarith
  have r_hi: "r \<le> of_int k"
  proof (cases "x = of_int k")
    case True
    have "(of_int k :: rat) < of_int (2 ^ 53)"
      using True x_le_q q_lt by simp
    then have "k < 2 ^ 53"
      by (simp only: of_int_less_iff)
    with k_pos have "round64 (of_int k) = Fin (of_int k)"
      by (intro round64_of_int) simp
    with r True show ?thesis by simp
  next
    case False
    with k_hi have "x < of_int k" by simp
    then have "of_int n < of_int k * D"
      using D_pos by (simp add: xD pos_divide_less_eq)
    then have "(of_int n :: rat) < of_int (k * 2 ^ s * m)"
      by (simp add: D_def algebra_simps)
    then have "n < k * 2 ^ s * m"
      by (simp only: of_int_less_iff)
    then have "n + 1 \<le> k * 2 ^ s * m"
      by simp
    then have "(of_int (n + 1) :: rat) \<le> of_int (k * 2 ^ s * m)"
      by (simp only: of_int_le_iff)
    then have "of_int n + 1 \<le> of_int k * D"
      by (simp add: D_def algebra_simps)
    then have "(of_int n + 1) / D \<le> of_int k * D / D"
      using D_pos by (intro divide_right_mono) auto
    then have "x + T \<le> of_int k"
      using D_pos by (simp add: xD T_def add_divide_distrib)
    with err err_lt show ?thesis
      by linarith
  qed
  from r_lo r_hi have "\<lceil>r\<rceil> = k"
    by (rule ceiling_unique)
  with r show ?thesis
    by (simp add: x_def k_def)
qed

lemma ceil_to_moq_least_multiple:
  fixes q :: rat
  assumes m: "0 < m" and n: "0 < n" "n < 2 ^ 53" and q: "q = of_int n / 2 ^ s"
    and normal: "2 powi (- 1022) * of_int m \<le> q" and small: "q + of_int m \<le> 2 ^ 53"
  shows "ceil_to_moq (Fin q) (Some m) = Inr (Fin (of_int (\<lceil>q / of_int m\<rceil> * m)))"
proof -
  define k where "k = \<lceil>q / of_int m\<rceil>"
  have mr: "(0::rat) < of_int m"
    using m by simp
  have q_pos: "0 < q"
    using n by (simp add: q)
  have "(of_int m :: rat) \<le> of_int (2 ^ 53)"
    using small q_pos by simp
  then have "m \<le> 2 ^ 53"
    by (simp only: of_int_le_iff)
  with m have fm: "float_of_int m = Inr (Fin (of_int m))"
    by (simp add: float_of_int_def round64_of_int)
  from ceiling_of_rounded_quotient [OF m n q normal small] obtain r
    where r: "round64 (q / of_int m) = Fin r" and c: "\<lceil>r\<rceil> = k"
    by (auto simp: k_def)
  have dv: "fdiv (Fin q) (Fin (of_int m)) = Fin r"
    using m r by simp
  have x_pos: "0 < q / of_int m"
    using q_pos mr by simp
  then have k_pos: "0 < k"
    by (simp add: k_def)
  have "of_int k < q / of_int m + 1"
    unfolding k_def by linarith
  then have "of_int k * of_int m < (q / of_int m + 1) * of_int m"
    using mr by (intro mult_strict_right_mono)
  then have "(of_int (k * m) :: rat) < q + of_int m"
    using mr by (simp add: algebra_simps)
  with small have "(of_int (k * m) :: rat) \<le> of_int (2 ^ 53)"
    by simp
  then have "k * m \<le> 2 ^ 53"
    by (simp only: of_int_le_iff)
  moreover have "0 \<le> k * m"
    using k_pos m by simp
  ultimately have "round64 (of_int (k * m)) = Fin (of_int (k * m))"
    by (intro round64_of_int) simp
  then have fk: "float_of_int (k * m) = Inr (Fin (of_int (k * m)))"
    by (simp only: float_of_int_def fl.case)
  have "\<not> fle (Fin q) (Fin 0)"
    using q_pos by (simp add: fle_def)
  with m fm dv c fk show ?thesis
    by (simp add: k_def)
qed

text \<open>
  Claim C5, as amended. With a positive \<open>moq\<close>, \<^verbatim>\<open>_ceil_to_moq\<close> returns 0 for every finite
  quantity \<open>q \<le> 0\<close> and for \<open>-\<infinity>\<close>. For a positive binary64 quantity \<open>q = n / 2 ^ s\<close>
  (\<open>0 < n < 2 ^ 53\<close>) with \<open>q / moq\<close> in the normal range (\<open>moq / 2 ^ 1022 \<le> q\<close>) and
  \<open>q + moq \<le> 2 ^ 53\<close>, it returns the least multiple of \<open>moq\<close> that is at least \<open>q\<close>. For
  \<open>+\<infinity>\<close> and NaN it raises. With no \<open>moq\<close> or a non-positive one it returns \<open>max 0 q\<close>, not
  rounded. So 55 with 20 gives 60, 0 with 20 gives 0, and 55 with no \<open>moq\<close> gives 55.
\<close>

theorem ceil_to_moq_rounds_up:
  "(0 < m \<and> q \<le> 0 \<longrightarrow> ceil_to_moq (Fin q) (Some m) = Inr (Fin 0))
   \<and> (0 < m \<and> 0 < n \<and> n < 2 ^ 53 \<and> q = of_int n / 2 ^ s
        \<and> 2 powi (- 1022) * of_int m \<le> q \<and> q + of_int m \<le> 2 ^ 53 \<longrightarrow>
        (\<exists>k. ceil_to_moq (Fin q) (Some m) = Inr (Fin (of_int (k * m)))
             \<and> q \<le> of_int (k * m)
             \<and> (\<forall>j. q \<le> of_int (j * m) \<longrightarrow> k * m \<le> j * m)))
   \<and> (0 < m \<longrightarrow> ceil_to_moq NInf (Some m) = Inr (Fin 0)
        \<and> (\<exists>e. ceil_to_moq PInf (Some m) = Inl e)
        \<and> (\<exists>e. ceil_to_moq NaN (Some m) = Inl e))
   \<and> (m \<le> 0 \<longrightarrow> ceil_to_moq (Fin q) (Some m) = Inr (Fin (max 0 q)))
   \<and> ceil_to_moq (Fin q) None = Inr (Fin (max 0 q))
   \<and> ceil_to_moq (Fin 55) (Some 20) = Inr (Fin 60)
   \<and> ceil_to_moq (Fin 0) (Some 20) = Inr (Fin 0)
   \<and> ceil_to_moq (Fin 55) None = Inr (Fin 55)"
proof (intro conjI impI)
  assume "0 < m \<and> q \<le> 0"
  then show "ceil_to_moq (Fin q) (Some m) = Inr (Fin 0)"
    by (auto simp: fle_def)
next
  assume a: "0 < m \<and> 0 < n \<and> n < 2 ^ 53 \<and> q = of_int n / 2 ^ s
        \<and> 2 powi (- 1022) * of_int m \<le> q \<and> q + of_int m \<le> 2 ^ 53"
  then have "ceil_to_moq (Fin q) (Some m) = Inr (Fin (of_int (\<lceil>q / of_int m\<rceil> * m)))"
    using ceil_to_moq_least_multiple [of m n q s] by blast
  then show "\<exists>k. ceil_to_moq (Fin q) (Some m) = Inr (Fin (of_int (k * m)))
             \<and> q \<le> of_int (k * m)
             \<and> (\<forall>j. q \<le> of_int (j * m) \<longrightarrow> k * m \<le> j * m)"
    using a ceiling_multiple_least [of m q] by blast
next
  assume "0 < m"
  then show "ceil_to_moq NInf (Some m) = Inr (Fin 0)"
    by (simp add: fle_def)
next
  assume m: "0 < m"
  show "\<exists>e. ceil_to_moq PInf (Some m) = Inl e"
  proof (cases "float_of_int m")
    case (Inl e)
    with m show ?thesis by (simp add: fle_def)
  next
    case (Inr y)
    then obtain b where "y = Fin b"
      by (cases "round64 (of_int m)") (auto simp: float_of_int_def)
    with m Inr show ?thesis by (simp add: fle_def)
  qed
next
  assume m: "0 < m"
  show "\<exists>e. ceil_to_moq NaN (Some m) = Inl e"
  proof (cases "float_of_int m")
    case (Inl e)
    with m show ?thesis by (simp add: fle_def)
  next
    case (Inr y)
    with m show ?thesis by (simp add: fle_def)
  qed
next
  assume "m \<le> 0"
  then show "ceil_to_moq (Fin q) (Some m) = Inr (Fin (max 0 q))"
    by (auto simp: py_max_def fgt_def max_def)
next
  show "ceil_to_moq (Fin q) None = Inr (Fin (max 0 q))"
    by (auto simp: py_max_def fgt_def max_def)
next
  show "ceil_to_moq (Fin 55) (Some 20) = Inr (Fin 60)"
    by code_simp
next
  show "ceil_to_moq (Fin 0) (Some 20) = Inr (Fin 0)"
    by (simp add: fle_def)
next
  show "ceil_to_moq (Fin 55) None = Inr (Fin 55)"
    by (simp add: py_max_def fgt_def)
qed

text \<open>
  The theorem at \<open>moq = 2\<close>, \<open>q = 7 / 2\<close> (\<open>n = 7\<close>, \<open>s = 1\<close>), at \<open>q = -3\<close>, and at
  \<open>moq = -4\<close>.
\<close>

theorem ceil_to_moq_rounds_up_witness:
  "(0::int) < 2 \<and> (0::int) < 7 \<and> (7::int) < 2 ^ 53 \<and> (7 / 2 :: rat) = of_int 7 / 2 ^ 1
   \<and> 2 powi (- 1022) * of_int 2 \<le> (7 / 2 :: rat) \<and> (7 / 2 :: rat) + of_int 2 \<le> 2 ^ 53
   \<and> (\<exists>k. ceil_to_moq (Fin (7 / 2)) (Some 2) = Inr (Fin (of_int (k * 2)))
          \<and> (7 / 2 :: rat) \<le> of_int (k * 2)
          \<and> (\<forall>j. (7 / 2 :: rat) \<le> of_int (j * 2) \<longrightarrow> k * 2 \<le> j * 2))
   \<and> ceil_to_moq (Fin (- 3)) (Some 2) = Inr (Fin 0)
   \<and> ceil_to_moq NInf (Some 2) = Inr (Fin 0)
   \<and> (\<exists>e. ceil_to_moq PInf (Some 2) = Inl e)
   \<and> ceil_to_moq (Fin (7 / 2)) (Some (- 4)) = Inr (Fin (7 / 2))"
proof -
  have t: "2 powi (- 1022) * of_int 2 \<le> (7 / 2 :: rat)"
    using tiny_le_one by simp
  have h: "(0::int) < 2 \<and> (0::int) < 7 \<and> (7::int) < 2 ^ 53 \<and> (7 / 2 :: rat) = of_int 7 / 2 ^ 1
      \<and> 2 powi (- 1022) * of_int 2 \<le> (7 / 2 :: rat) \<and> (7 / 2 :: rat) + of_int 2 \<le> 2 ^ 53"
    using t by simp
  from ceil_to_moq_rounds_up [of 2 "7 / 2" 7 1] h
  have 1: "\<exists>k. ceil_to_moq (Fin (7 / 2)) (Some 2) = Inr (Fin (of_int (k * 2)))
          \<and> (7 / 2 :: rat) \<le> of_int (k * 2)
          \<and> (\<forall>j. (7 / 2 :: rat) \<le> of_int (j * 2) \<longrightarrow> k * 2 \<le> j * 2)"
    by blast
  from ceil_to_moq_rounds_up [of 2 "7 / 2" 7 1]
  have 2: "ceil_to_moq NInf (Some 2) = Inr (Fin 0)" "\<exists>e. ceil_to_moq PInf (Some 2) = Inl e"
    by simp_all
  from ceil_to_moq_rounds_up [of 2 "- 3" 7 1]
  have 3: "ceil_to_moq (Fin (- 3)) (Some 2) = Inr (Fin 0)"
    by simp
  from ceil_to_moq_rounds_up [of "- 4" "7 / 2" 7 1]
  have 4: "ceil_to_moq (Fin (7 / 2)) (Some (- 4)) = Inr (Fin (7 / 2))"
    by simp
  from h 1 2 3 4 show ?thesis by blast
qed

text \<open>
  Claim C5 as first stated fails outside that range: \<open>3 * 10 ^ 17\<close> with \<open>moq = 7\<close> comes back
  unchanged although 7 does not divide it (the product is rounded when it is converted to
  binary64), and an infinite or NaN quantity with a positive \<open>moq\<close> raises instead of returning.
\<close>

theorem ceil_to_moq_rounds_up_counterexample:
  "ceil_to_moq (Fin 300000000000000000) (Some 7) = Inr (Fin 300000000000000000)
   \<and> \<not> (7::int) dvd 300000000000000000
   \<and> ceil_to_moq PInf (Some 20) = Inl OverflowError_infinity_to_integer
   \<and> ceil_to_moq NaN (Some 20) = Inl ValueError_nan_to_integer"
  by (intro conjI) code_simp+

subsection \<open>The column guard\<close>

lemma py_int_Inl: "py_int x = Inl e \<Longrightarrow> e \<noteq> ValueError_missing_columns m"
  by (cases x) auto

lemma math_ceil_Inl: "math_ceil x = Inl e \<Longrightarrow> e \<noteq> ValueError_missing_columns m"
  by (cases x) auto

lemma math_floor_Inl: "math_floor x = Inl e \<Longrightarrow> e \<noteq> ValueError_missing_columns m"
  by (cases x) auto

lemma float_of_int_Inl: "float_of_int i = Inl e \<Longrightarrow> e \<noteq> ValueError_missing_columns m"
  by (auto simp: float_of_int_def split: fl.splits)

lemma ceil_to_moq_Inl: "ceil_to_moq x mq = Inl e \<Longrightarrow> e \<noteq> ValueError_missing_columns m"
  by (cases mq)
    (auto simp: bind_error_Inl split: if_splits dest: math_ceil_Inl float_of_int_Inl)

lemma date_add_days_Inl: "date_add_days d n = Inl e \<Longrightarrow> e \<noteq> ValueError_missing_columns m"
  by (auto simp: date_add_days_def split: if_splits)

lemma moq_Inl:
  "(case mv of None \<Rightarrow> Inr None
    | Some moq_val \<Rightarrow> if notna moq_val then bind_error (py_int moq_val) (\<lambda>m. Inr (Some m)) else Inr None) = Inl e
   \<Longrightarrow> e \<noteq> ValueError_missing_columns m"
  by (auto simp: bind_error_Inl split: option.splits if_splits dest: py_int_Inl)

lemma reorder_by_Inl:
  "(if isfinite d then
      bind_error (float_of_int l) (\<lambda>lead.
      bind_error (math_floor (fsub d lead)) (\<lambda>n.
      bind_error (date_add_days today (max 0 n)) (\<lambda>d. Inr (Some d))))
    else Inr None) = Inl e \<Longrightarrow> e \<noteq> ValueError_missing_columns m"
  by (auto simp: bind_error_Inl split: if_splits
      dest: math_floor_Inl date_add_days_Inl float_of_int_Inl)

lemma sku_recommendation_Inl:
  assumes "sku_recommendation today h kg = Inl e"
  shows "e \<noteq> ValueError_missing_columns m"
  using assms
  apply (simp only: sku_recommendation_def Let_def bind_error_Inl)
  apply (elim exE conjE disjE)
        apply (erule py_int_Inl)
       apply (erule moq_Inl)
      apply (erule float_of_int_Inl)
     apply (erule float_of_int_Inl)
    apply (erule ceil_to_moq_Inl)
   apply (erule reorder_by_Inl)
  apply simp
  done

lemma set_missing_columns:
  "set (missing_columns df) = set REQUIRED_COLS - set (columns df)"
  by (auto simp: missing_columns_def)

lemma distinct_missing_columns: "distinct (missing_columns df)"
  by (simp add: missing_columns_def REQUIRED_COLS_def)

text \<open>
  Claim C1. When a required column is absent, \<^verbatim>\<open>compute_recommendations\<close> fails with the
  error that lists the missing required columns, exactly those and each once, and returns
  no list; when the five required columns are present, it never fails with that error.
\<close>

theorem column_guard:
  "(\<not> set REQUIRED_COLS \<subseteq> set (columns df) \<longrightarrow>
      (\<exists>missing. compute_recommendations pd ps df h = Inl (ValueError_missing_columns missing)
         \<and> set missing = set REQUIRED_COLS - set (columns df) \<and> distinct missing))
   \<and> (set REQUIRED_COLS \<subseteq> set (columns df) \<longrightarrow>
      (\<forall>missing. compute_recommendations pd ps df h \<noteq> Inl (ValueError_missing_columns missing)))"
proof (intro conjI impI allI)
  assume a: "\<not> set REQUIRED_COLS \<subseteq> set (columns df)"
  then have "missing_columns df \<noteq> []"
    using set_missing_columns [of df] by auto
  then have "compute_recommendations pd ps df h = Inl (ValueError_missing_columns (missing_columns df))"
    by (simp add: compute_recommendations_def)
  then show "\<exists>missing. compute_recommendations pd ps df h = Inl (ValueError_missing_columns missing)
         \<and> set missing = set REQUIRED_COLS - set (columns df) \<and> distinct missing"
    using set_missing_columns distinct_missing_columns by blast
next
  fix missing
  assume a: "set REQUIRED_COLS \<subseteq> set (columns df)"
  then have "set (missing_columns df) = {}"
    using set_missing_columns [of df] by auto
  then have m: "missing_columns df = []"
    by simp
  show "compute_recommendations pd ps df h \<noteq> Inl (ValueError_missing_columns missing)"
  proof
    assume "compute_recommendations pd ps df h = Inl (ValueError_missing_columns missing)"
    with m have "collect (sku_recommendation (clock_today ps) h) (groupby_SKU (clean pd df))
        = Inl (ValueError_missing_columns missing)"
      by (simp add: compute_recommendations_def bind_error_Inl)
    then obtain kg where "sku_recommendation (clock_today ps) h kg = Inl (ValueError_missing_columns missing)"
      using collect_Inl by blast
    then show False using sku_recommendation_Inl by blast
  qed
qed

theorem column_guard_witness:
  "\<not> set REQUIRED_COLS \<subseteq> set [''SKU'', ''OnHand'', ''Cost'']
   \<and> (\<exists>missing.
        compute_recommendations \<lparr>to_datetime = Some, to_numeric = id\<rparr>
          \<lparr>clock_today = 739924, CLERK_JWKS_URL = [], CLERK_ISSUER = [], jwks_client_cache = None\<rparr>
          \<lparr>columns = [''SKU'', ''OnHand'', ''Cost''], rows = []\<rparr> 30
          = Inl (ValueError_missing_columns missing)
        \<and> set missing = set REQUIRED_COLS - set [''SKU'', ''OnHand'', ''Cost''] \<and> distinct missing)
   \<and> set REQUIRED_COLS \<subseteq> set [''Date'', ''SKU'', ''UnitsSold'', ''LeadTimeDays'', ''OnHand'']
   \<and> (\<forall>missing.
        compute_recommendations \<lparr>to_datetime = Some, to_numeric = id\<rparr>
          \<lparr>clock_today = 739924, CLERK_JWKS_URL = [], CLERK_ISSUER = [], jwks_client_cache = None\<rparr>
          \<lparr>columns = [''Date'', ''SKU'', ''UnitsSold'', ''LeadTimeDays'', ''OnHand''], rows = []\<rparr> 30
          \<noteq> Inl (ValueError_missing_columns missing))"
proof -
  have a: "\<not> set REQUIRED_COLS \<subseteq> set [''SKU'', ''OnHand'', ''Cost'']"
    by (simp add: REQUIRED_COLS_def)
  have b: "set REQUIRED_COLS \<subseteq> set [''Date'', ''SKU'', ''UnitsSold'', ''LeadTimeDays'', ''OnHand'']"
    by (simp add: REQUIRED_COLS_def)
  show ?thesis
    using a b
      column_guard [of "\<lparr>columns = [''SKU'', ''OnHand'', ''Cost''], rows = []\<rparr>"
        "\<lparr>to_datetime = Some, to_numeric = id\<rparr>"
        "\<lparr>clock_today = 739924, CLERK_JWKS_URL = [], CLERK_ISSUER = [], jwks_client_cache = None\<rparr>" 30]
      column_guard [of "\<lparr>columns = [''Date'', ''SKU'', ''UnitsSold'', ''LeadTimeDays'', ''OnHand''], rows = []\<rparr>"
        "\<lparr>to_datetime = Some, to_numeric = id\<rparr>"
        "\<lparr>clock_today = 739924, CLERK_JWKS_URL = [], CLERK_ISSUER = [], jwks_client_cache = None\<rparr>" 30]
    by simp
qed

subsection \<open>The status\<close>

lemma not_fle_iff_flt: "fle d y \<Longrightarrow> (\<not> fle d (Fin a) \<longleftrightarrow> flt (Fin a) d)"
  by (cases d; cases y) (auto simp: fle_def)

lemma status_of_positive_demand:
  assumes "sku_recommendation today h kg = Inr r" and "fgt (avg_daily_sales r) (Fin 0)"
  shows "status r =
           (if fle (fdiv (current_stock r) (avg_daily_sales r)) (of_int_fl (lead_time_days r))
            then ''RED''
            else if fle (fdiv (current_stock r) (avg_daily_sales r)) (of_int_fl (lead_time_days r + 7))
            then ''AMBER'' else ''GREEN'')"
  using sku_recommendation_Inr [OF assms(1)] assms(2) fgt_not_feq [OF assms(2)]
  by simp

text \<open>
  Claim C3. For every recommendation of the output whose average daily sales are positive,
  with \<open>d\<close> the current stock divided by the average daily sales: the status is RED exactly
  when \<open>d \<le> lead_time\<close>, AMBER exactly when \<open>lead_time < d \<le> lead_time + 7\<close>, and GREEN
  exactly when neither holds. The division and the comparisons are those of the code: the
  quotient is rounded to a float, and it is compared with the integers exactly. With a lead
  time of 5 and daily sales of 2, a stock of 8 is RED, a stock of 12 is AMBER and a stock of
  30 is GREEN. With sales of 1, 1, 1, 2, 2 on five days, a stock of 21 and a lead time of
  15, the average is the float 1.4 and the quotient the float 15.000000000000002, above the
  lead time: the status is AMBER.
\<close>

theorem status_boundaries:
  "(\<forall>out r. compute_recommendations pd ps df h = Inr out \<and> r \<in> set out
        \<and> fgt (avg_daily_sales r) (Fin 0) \<longrightarrow>
      (status r = ''RED'' \<longleftrightarrow>
         fle (fdiv (current_stock r) (avg_daily_sales r)) (of_int_fl (lead_time_days r)))
    \<and> (status r = ''AMBER'' \<longleftrightarrow>
         flt (of_int_fl (lead_time_days r)) (fdiv (current_stock r) (avg_daily_sales r))
         \<and> fle (fdiv (current_stock r) (avg_daily_sales r)) (of_int_fl (lead_time_days r + 7)))
    \<and> (status r = ''GREEN'' \<longleftrightarrow>
         \<not> fle (fdiv (current_stock r) (avg_daily_sales r)) (of_int_fl (lead_time_days r))
         \<and> \<not> (flt (of_int_fl (lead_time_days r)) (fdiv (current_stock r) (avg_daily_sales r))
               \<and> fle (fdiv (current_stock r) (avg_daily_sales r)) (of_int_fl (lead_time_days r + 7)))))
   \<and> map_sum id (map status)
        (compute_recommendations \<lparr>to_datetime = Some, to_numeric = id\<rparr>
          \<lparr>clock_today = 739924, CLERK_JWKS_URL = [], CLERK_ISSUER = [], jwks_client_cache = None\<rparr>
          \<lparr>columns = [''SKU'', ''Date'', ''UnitsSold'', ''OnHand'', ''LeadTimeDays''],
           rows = [\<lparr>SKU = Some ''A1'', Date = 0, UnitsSold = Fin 2, OnHand = Fin 8,
                    LeadTimeDays = Fin 5, MOQ = NaN, Cost = NaN\<rparr>]\<rparr> 30) = Inr [''RED'']
   \<and> map_sum id (map status)
        (compute_recommendations \<lparr>to_datetime = Some, to_numeric = id\<rparr>
          \<lparr>clock_today = 739924, CLERK_JWKS_URL = [], CLERK_ISSUER = [], jwks_client_cache = None\<rparr>
          \<lparr>columns = [''SKU'', ''Date'', ''UnitsSold'', ''OnHand'', ''LeadTimeDays''],
           rows = [\<lparr>SKU = Some ''A1'', Date = 0, UnitsSold = Fin 2, OnHand = Fin 12,
                    LeadTimeDays = Fin 5, MOQ = NaN, Cost = NaN\<rparr>]\<rparr> 30) = Inr [''AMBER'']
   \<and> map_sum id (map status)
        (compute_recommendations \<lparr>to_datetime = Some, to_numeric = id\<rparr>
          \<lparr>clock_today = 739924, CLERK_JWKS_URL = [], CLERK_ISSUER = [], jwks_client_cache = None\<rparr>
          \<lparr>columns = [''SKU'', ''Date'', ''UnitsSold'', ''OnHand'', ''LeadTimeDays''],
           rows = [\<lparr>SKU = Some ''A1'', Date = 0, UnitsSold = Fin 2, OnHand = Fin 30,
                    LeadTimeDays = Fin 5, MOQ = NaN, Cost = NaN\<rparr>]\<rparr> 30) = Inr [''GREEN'']
   \<and> map_sum id (map status)
        (compute_recommendations \<lparr>to_datetime = Some, to_numeric = id\<rparr>
          \<lparr>clock_today = 739924, CLERK_JWKS_URL = [], CLERK_ISSUER = [], jwks_client_cache = None\<rparr>
          \<lparr>columns = [''SKU'', ''Date'', ''UnitsSold'', ''OnHand'', ''LeadTimeDays''],
           rows = [\<lparr>SKU = Some ''A1'', Date = 0, UnitsSold = Fin 1, OnHand = Fin 21,
                    LeadTimeDays = Fin 15, MOQ = NaN, Cost = NaN\<rparr>,
                   \<lparr>SKU = Some ''A1'', Date = 86400000000000, UnitsSold = Fin 1, OnHand = Fin 21,
                    LeadTimeDays = Fin 15, MOQ = NaN, Cost = NaN\<rparr>,
                   \<lparr>SKU = Some ''A1'', Date = 172800000000000, UnitsSold = Fin 1, OnHand = Fin 21,
                    LeadTimeDays = Fin 15, MOQ = NaN, Cost = NaN\<rparr>,
                   \<lparr>SKU = Some ''A1'', Date = 259200000000000, UnitsSold = Fin 2, OnHand = Fin 21,
                    LeadTimeDays = Fin 15, MOQ = NaN, Cost = NaN\<rparr>,
                   \<lparr>SKU = Some ''A1'', Date = 345600000000000, UnitsSold = Fin 2, OnHand = Fin 21,
                    LeadTimeDays = Fin 15, MOQ = NaN, Cost = NaN\<rparr>]\<rparr> 30) = Inr [''AMBER'']"
proof (intro conjI allI impI)
  fix out r
  assume a: "compute_recommendations pd ps df h = Inr out \<and> r \<in> set out
        \<and> fgt (avg_daily_sales r) (Fin 0)"
  then obtain kg where kg: "sku_recommendation (clock_today ps) h kg = Inr r"
    using compute_recommendations_member by blast
  note st = status_of_positive_demand [OF kg]
  from a st show "status r = ''RED'' \<longleftrightarrow>
         fle (fdiv (current_stock r) (avg_daily_sales r)) (of_int_fl (lead_time_days r))"
    by simp
  from a st show "status r = ''AMBER'' \<longleftrightarrow>
         flt (of_int_fl (lead_time_days r)) (fdiv (current_stock r) (avg_daily_sales r))
         \<and> fle (fdiv (current_stock r) (avg_daily_sales r)) (of_int_fl (lead_time_days r + 7))"
    using not_fle_iff_flt [of "fdiv (current_stock r) (avg_daily_sales r)"
        "of_int_fl (lead_time_days r + 7)" "of_int (lead_time_days r)"]
    by (auto simp: of_int_fl_def)
  from a st show "status r = ''GREEN'' \<longleftrightarrow>
         \<not> fle (fdiv (current_stock r) (avg_daily_sales r)) (of_int_fl (lead_time_days r))
         \<and> \<not> (flt (of_int_fl (lead_time_days r)) (fdiv (current_stock r) (avg_daily_sales r))
               \<and> fle (fdiv (current_stock r) (avg_daily_sales r)) (of_int_fl (lead_time_days r + 7)))"
    using not_fle_iff_flt [of "fdiv (current_stock r) (avg_daily_sales r)"
        "of_int_fl (lead_time_days r + 7)" "of_int (lead_time_days r)"]
    by (auto simp: of_int_fl_def)
qed (code_simp+)

theorem status_boundaries_witness:
  "compute_recommendations \<lparr>to_datetime = Some, to_numeric = id\<rparr>
      \<lparr>clock_today = 739924, CLERK_JWKS_URL = [], CLERK_ISSUER = [], jwks_client_cache = None\<rparr>
      \<lparr>columns = [''SKU'', ''Date'', ''UnitsSold'', ''OnHand'', ''LeadTimeDays''],
       rows = [\<lparr>SKU = Some ''A1'', Date = 0, UnitsSold = Fin 2, OnHand = Fin 12,
                LeadTimeDays = Fin 5, MOQ = NaN, Cost = NaN\<rparr>]\<rparr> 30
     = Inr [\<lparr>sku = ''A1'', current_stock = Fin 12, avg_daily_sales = Fin 2,
              forecast_30d = Fin 60, reorder_qty = Fin 58, reorder_by = Some 739925,
              lead_time_days = 5, moq = None, unit_cost = None, status = ''AMBER'',
              reason = ''Avg daily sales 2.0. Lead time 5d. Forecast next 30d 60. Recommend reorder 58 to cover horizon + lead time.''\<rparr>]
   \<and> fgt (Fin 2) (Fin 0)
   \<and> flt (of_int_fl 5) (fdiv (Fin 12) (Fin 2))
   \<and> fle (fdiv (Fin 12) (Fin 2)) (of_int_fl (5 + 7))"
proof -
  let ?pd = "\<lparr>to_datetime = Some, to_numeric = id\<rparr> :: (int, fl) pandas"
  let ?ps = "\<lparr>clock_today = 739924, CLERK_JWKS_URL = [], CLERK_ISSUER = [], jwks_client_cache = None\<rparr>"
  let ?df = "\<lparr>columns = [''SKU'', ''Date'', ''UnitsSold'', ''OnHand'', ''LeadTimeDays''],
       rows = [\<lparr>SKU = Some ''A1'', Date = 0, UnitsSold = Fin 2, OnHand = Fin 12,
                LeadTimeDays = Fin 5, MOQ = NaN, Cost = NaN\<rparr>]\<rparr> :: (int, fl) dataframe"
  let ?r = "\<lparr>sku = ''A1'', current_stock = Fin 12, avg_daily_sales = Fin 2,
              forecast_30d = Fin 60, reorder_qty = Fin 58, reorder_by = Some 739925,
              lead_time_days = 5, moq = None, unit_cost = None, status = ''AMBER'',
              reason = ''Avg daily sales 2.0. Lead time 5d. Forecast next 30d 60. Recommend reorder 58 to cover horizon + lead time.''\<rparr>"
  have c: "compute_recommendations ?pd ?ps ?df 30 = Inr [?r]"
    by code_simp
  have g: "fgt (Fin 2) (Fin 0)"
    by (simp add: fgt_def)
  from status_boundaries [THEN conjunct1, rule_format, of ?pd ?ps ?df 30 "[?r]" ?r] c g
  have "flt (of_int_fl 5) (fdiv (Fin 12) (Fin 2))
   \<and> fle (fdiv (Fin 12) (Fin 2)) (of_int_fl (5 + 7))"
    by simp
  with c g show ?thesis by simp
qed

subsection \<open>No demand\<close>

lemma sku_recommendation_zero_demand:
  assumes "sku_recommendation today h kg = Inr r"
  shows "(feq (avg_daily_sales r) (Fin 0) \<longrightarrow>
            status r = ''GREEN'' \<and> reorder_by r = None
            \<and> reason r = ''No recent sales detected; no reorder recommendation.'')
       \<and> (\<not> fgt (avg_daily_sales r) (Fin 0) \<longrightarrow> reorder_by r = None)
       \<and> (fgt (avg_daily_sales r) (Fin 0)
            \<and> isfinite (fdiv (current_stock r) (avg_daily_sales r)) \<longrightarrow> reorder_by r \<noteq> None)"
proof -
  note f = sku_recommendation_Inr [OF assms]
  have z: "feq (avg_daily_sales r) (Fin 0) \<Longrightarrow> \<not> fgt (avg_daily_sales r) (Fin 0)"
    using fgt_not_feq by blast
  from f z show ?thesis by auto
qed

text \<open>
  Claim C4, as amended. In every recommendation of the output: when the average daily sales
  equal 0, the status is GREEN, \<^verbatim>\<open>reorder_by\<close> is null and the reason is the fixed text;
  \<^verbatim>\<open>reorder_by\<close> is null whenever the average daily sales are not greater than 0; and when
  they are greater than 0 and the current stock divided by them is finite, \<^verbatim>\<open>reorder_by\<close>
  is a date.
\<close>

theorem zero_demand:
  assumes "compute_recommendations pd ps df h = Inr out" and "r \<in> set out"
  shows "(feq (avg_daily_sales r) (Fin 0) \<longrightarrow>
            status r = ''GREEN'' \<and> reorder_by r = None
            \<and> reason r = ''No recent sales detected; no reorder recommendation.'')
       \<and> (\<not> fgt (avg_daily_sales r) (Fin 0) \<longrightarrow> reorder_by r = None)
       \<and> (fgt (avg_daily_sales r) (Fin 0)
            \<and> isfinite (fdiv (current_stock r) (avg_daily_sales r)) \<longrightarrow> reorder_by r \<noteq> None)"
proof -
  from assms obtain kg where "sku_recommendation (clock_today ps) h kg = Inr r"
    using compute_recommendations_member by blast
  then show ?thesis by (rule sku_recommendation_zero_demand)
qed

theorem zero_demand_witness:
  "compute_recommendations \<lparr>to_datetime = Some, to_numeric = id\<rparr>
      \<lparr>clock_today = 739924, CLERK_JWKS_URL = [], CLERK_ISSUER = [], jwks_client_cache = None\<rparr>
      \<lparr>columns = [''SKU'', ''Date'', ''UnitsSold'', ''OnHand'', ''LeadTimeDays''],
       rows = [\<lparr>SKU = Some ''A1'', Date = 0, UnitsSold = Fin 0, OnHand = Fin 10,
                LeadTimeDays = Fin 5, MOQ = NaN, Cost = NaN\<rparr>,
               \<lparr>SKU = Some ''B2'', Date = 0, UnitsSold = Fin 2, OnHand = Fin 30,
                LeadTimeDays = Fin 5, MOQ = NaN, Cost = NaN\<rparr>]\<rparr> 30
     = Inr [\<lparr>sku = ''B2'', current_stock = Fin 30, avg_daily_sales = Fin 2,
              forecast_30d = Fin 60, reorder_qty = Fin 40, reorder_by = Some 739934,
              lead_time_days = 5, moq = None, unit_cost = None, status = ''GREEN'',
              reason = ''Avg daily sales 2.0. Lead time 5d. Forecast next 30d 60. Recommend reorder 40 to cover horizon + lead time.''\<rparr>,
            \<lparr>sku = ''A1'', current_stock = Fin 10, avg_daily_sales = Fin 0,
              forecast_30d = Fin 0, reorder_qty = Fin 0, reorder_by = None,
              lead_time_days = 5, moq = None, unit_cost = None, status = ''GREEN'',
              reason = ''No recent sales detected; no reorder recommendation.''\<rparr>]
   \<and> feq (Fin 0) (Fin 0) \<and> \<not> fgt (Fin 0) (Fin 0)
   \<and> fgt (Fin 2) (Fin 0) \<and> isfinite (fdiv (Fin 30) (Fin 2))
   \<and> Some (739934::int) \<noteq> None"
proof -
  let ?pd = "\<lparr>to_datetime = Some, to_numeric = id\<rparr> :: (int, fl) pandas"
  let ?ps = "\<lparr>clock_today = 739924, CLERK_JWKS_URL = [], CLERK_ISSUER = [], jwks_client_cache = None\<rparr>"
  let ?df = "\<lparr>columns = [''SKU'', ''Date'', ''UnitsSold'', ''OnHand'', ''LeadTimeDays''],
       rows = [\<lparr>SKU = Some ''A1'', Date = 0, UnitsSold = Fin 0, OnHand = Fin 10,
                LeadTimeDays = Fin 5, MOQ = NaN, Cost = NaN\<rparr>,
               \<lparr>SKU = Some ''B2'', Date = 0, UnitsSold = Fin 2, OnHand = Fin 30,
                LeadTimeDays = Fin 5, MOQ = NaN, Cost = NaN\<rparr>]\<rparr> :: (int, fl) dataframe"
  let ?b = "\<lparr>sku = ''B2'', current_stock = Fin 30, avg_daily_sales = Fin 2,
              forecast_30d = Fin 60, reorder_qty = Fin 40, reorder_by = Some 739934,
              lead_time_days = 5, moq = None, unit_cost = None, status = ''GREEN'',
              reason = ''Avg daily sales 2.0. Lead time 5d. Forecast next 30d 60. Recommend reorder 40 to cover horizon + lead time.''\<rparr>"
  let ?a = "\<lparr>sku = ''A1'', current_stock = Fin 10, avg_daily_sales = Fin 0,
              forecast_30d = Fin 0, reorder_qty = Fin 0, reorder_by = None,
              lead_time_days = 5, moq = None, unit_cost = None, status = ''GREEN'',
              reason = ''No recent sales detected; no reorder recommendation.''\<rparr>"
  have c: "compute_recommendations ?pd ?ps ?df 30 = Inr [?b, ?a]"
    by code_simp
  have ma: "?a \<in> set [?b, ?a]" and mb: "?b \<in> set [?b, ?a]"
    by simp_all
  from zero_demand [OF c ma] zero_demand [OF c mb] c
  show ?thesis by (simp add: fgt_def round64_numeral)
qed

text \<open>
  The claim as stated fails: a SKU whose only row has \<^verbatim>\<open>UnitsSold = -1\<close> has average daily
  sales of -1, not 0, and its \<^verbatim>\<open>reorder_by\<close> is null, by the guard \<^verbatim>\<open>avg_daily > 0\<close> of
  line 156.
\<close>

theorem zero_demand_counterexample:
  "compute_recommendations \<lparr>to_datetime = Some, to_numeric = id\<rparr>
      \<lparr>clock_today = 739924, CLERK_JWKS_URL = [], CLERK_ISSUER = [], jwks_client_cache = None\<rparr>
      \<lparr>columns = [''SKU'', ''Date'', ''UnitsSold'', ''OnHand'', ''LeadTimeDays''],
       rows = [\<lparr>SKU = Some ''A1'', Date = 0, UnitsSold = Fin (- 1), OnHand = Fin 10,
                LeadTimeDays = Fin 5, MOQ = NaN, Cost = NaN\<rparr>]\<rparr> 30
     = Inr [\<lparr>sku = ''A1'', current_stock = Fin 10, avg_daily_sales = Fin (- 1),
              forecast_30d = Fin (- 30), reorder_qty = Fin 0, reorder_by = None,
              lead_time_days = 5, moq = None, unit_cost = None, status = ''GREEN'',
              reason = ''Avg daily sales -1.0. Lead time 5d. Forecast next 30d -30. Recommend reorder 0 to cover horizon + lead time.''\<rparr>]"
  by code_simp

subsection \<open>The minimum order quantity of the output\<close>








text \<open>
  With a positive \<^verbatim>\<open>moq\<close> the quantity that is rounded up is the float of line 153. Sales
  of 8, 8 and 9 on three days, no stock, no lead time and an MOQ of 10: the average is the
  float 8.333333333333334, its product with 30 the float 250.00000000000003, and the order
  is 260.
\<close>

lemma positive_moq_rounds_the_float:
  "map_sum id (map reorder_qty)
      (compute_recommendations \<lparr>to_datetime = Some, to_numeric = id\<rparr>
        \<lparr>clock_today = 739924, CLERK_JWKS_URL = [], CLERK_ISSUER = [], jwks_client_cache = None\<rparr>
        \<lparr>columns = [''SKU'', ''Date'', ''UnitsSold'', ''OnHand'', ''LeadTimeDays'', ''MOQ''],
         rows = [\<lparr>SKU = Some ''A1'', Date = 0, UnitsSold = Fin 8, OnHand = Fin 0,
                  LeadTimeDays = Fin 0, MOQ = Fin 10, Cost = NaN\<rparr>,
                 \<lparr>SKU = Some ''A1'', Date = 86400000000000, UnitsSold = Fin 8, OnHand = Fin 0,
                  LeadTimeDays = Fin 0, MOQ = Fin 10, Cost = NaN\<rparr>,
                 \<lparr>SKU = Some ''A1'', Date = 172800000000000, UnitsSold = Fin 9, OnHand = Fin 0,
                  LeadTimeDays = Fin 0, MOQ = Fin 10, Cost = NaN\<rparr>]\<rparr> 30)
     = Inr [Fin 260]"
  by code_simp

subsection \<open>The demand window\<close>

lemma Date_max_eq_Max: "g \<noteq> [] \<Longrightarrow> Date_max g = Max (Date ` set g)"
proof -
  assume "g \<noteq> []"
  then obtain r rs where g: "g = r # rs" by (cases g) auto
  have "Date_max g = Max (set (Date r # map Date rs))"
    unfolding Date_max_def g by (simp only: Max.set_eq_fold list.sel)
  then show ?thesis by (simp add: g)
qed

lemma Date_max_in: "g \<noteq> [] \<Longrightarrow> \<exists>r \<in> set g. Date r = Date_max g"
proof -
  assume g: "g \<noteq> []"
  then have "Max (Date ` set g) \<in> Date ` set g"
    by (intro Max_in) auto
  then obtain r where "r \<in> set g" and "Date r = Max (Date ` set g)"
    by auto
  with g show ?thesis by (auto simp: Date_max_eq_Max)
qed

lemma recent_rows_nonempty: "g \<noteq> [] \<Longrightarrow> recent_rows g \<noteq> []"
proof -
  assume "g \<noteq> []"
  then obtain r where r: "r \<in> set g" "Date r = Date_max g"
    using Date_max_in by blast
  then have "r \<in> set (recent_rows g)"
    by (simp add: recent_rows_def Timedelta_days_def ns_per_day_def)
  then show ?thesis by auto
qed

lemma groupby_SKU_nonempty: "kg \<in> set (groupby_SKU rs) \<Longrightarrow> snd kg \<noteq> []"
  by (auto simp: groupby_SKU_def List.map_filter_def filter_empty_conv)

text \<open>
  Claim C8. For every non-empty group the rows of the last 28 days, those with
  \<open>Date \<ge> max Date - 28 days\<close>, are not empty, because a row with the greatest date is among
  them; so the average is taken over that window and the fallback to the whole group is
  never used. Every group that \<^verbatim>\<open>groupby\<close> forms is non-empty, and so is its window after the
  sort by date.
\<close>

theorem recent_window_nonempty:
  "(g \<noteq> [] \<longrightarrow>
      recent_rows g \<noteq> []
      \<and> avg_daily_of g =
          (if daily_sums (recent_rows g) \<noteq> [] then nanmean (daily_sums (recent_rows g)) else Fin 0))
   \<and> (\<forall>kg \<in> set (groupby_SKU rs).
        snd kg \<noteq> [] \<and> recent_rows (sort_key Date (snd kg)) \<noteq> [])"
proof (intro conjI impI ballI)
  assume "g \<noteq> []"
  then show "recent_rows g \<noteq> []" by (rule recent_rows_nonempty)
  then show "avg_daily_of g =
          (if daily_sums (recent_rows g) \<noteq> [] then nanmean (daily_sums (recent_rows g)) else Fin 0)"
    by (simp add: avg_daily_of_def)
next
  fix kg assume "kg \<in> set (groupby_SKU rs)"
  then show g: "snd kg \<noteq> []" by (rule groupby_SKU_nonempty)
  then have "sort_key Date (snd kg) \<noteq> []"
    by (metis length_0_conv length_sort)
  then show "recent_rows (sort_key Date (snd kg)) \<noteq> []" by (rule recent_rows_nonempty)
qed

theorem recent_window_nonempty_witness:
  "[\<lparr>SKU = Some ''A1'', Date = 0, UnitsSold = Fin 2, OnHand = Fin 8,
      LeadTimeDays = Fin 5, MOQ = None, Cost = None\<rparr> :: clean_row] \<noteq> []
   \<and> recent_rows [\<lparr>SKU = Some ''A1'', Date = 0, UnitsSold = Fin 2, OnHand = Fin 8,
      LeadTimeDays = Fin 5, MOQ = None, Cost = None\<rparr>] \<noteq> []
   \<and> (''A1'', [\<lparr>SKU = Some ''A1'', Date = 0, UnitsSold = Fin 2, OnHand = Fin 8,
      LeadTimeDays = Fin 5, MOQ = None, Cost = None\<rparr>])
       \<in> set (groupby_SKU [\<lparr>SKU = Some ''A1'', Date = 0, UnitsSold = Fin 2, OnHand = Fin 8,
      LeadTimeDays = Fin 5, MOQ = None, Cost = None\<rparr>])
   \<and> recent_rows (sort_key Date [\<lparr>SKU = Some ''A1'', Date = 0, UnitsSold = Fin 2, OnHand = Fin 8,
      LeadTimeDays = Fin 5, MOQ = None, Cost = None\<rparr>]) \<noteq> []"
proof -
  let ?r = "\<lparr>SKU = Some ''A1'', Date = 0, UnitsSold = Fin 2, OnHand = Fin 8,
      LeadTimeDays = Fin 5, MOQ = None, Cost = None\<rparr> :: clean_row"
  have m: "(''A1'', [?r]) \<in> set (groupby_SKU [?r])"
    by (simp add: groupby_SKU_def)
  from recent_window_nonempty [of "[?r]" "[?r]"] m
  show ?thesis by fastforce
qed

subsection \<open>The order of the output\<close>

lemma sorted_wrt_insert_by:
  assumes asym: "\<And>x y. lt x y \<Longrightarrow> \<not> lt y x"
    and trans: "\<And>x y z. P x \<Longrightarrow> P y \<Longrightarrow> P z \<Longrightarrow> \<not> lt y x \<Longrightarrow> \<not> lt z y \<Longrightarrow> \<not> lt z x"
    and "P a" and "\<forall>x \<in> set xs. P x" and "sorted_wrt (\<lambda>x y. \<not> lt y x) xs"
  shows "sorted_wrt (\<lambda>x y. \<not> lt y x) (insert_by lt a xs)"
  using assms(3-)
proof (induction xs)
  case Nil
  then show ?case by simp
next
  case (Cons y ys)
  show ?case
  proof (cases "lt a y")
    case True
    have "\<not> lt z a" if "z \<in> set ys" for z
    proof -
      from Cons.prems that have "\<not> lt z y" by auto
      moreover from True have "\<not> lt y a" by (rule asym)
      ultimately show ?thesis
        using trans [of a y z] Cons.prems that by auto
    qed
    with True Cons.prems asym show ?thesis by auto
  next
    case False
    with Cons show ?thesis by (auto simp: set_insert_by)
  qed
qed

lemma sorted_wrt_foldl_insert_by:
  assumes asym: "\<And>x y. lt x y \<Longrightarrow> \<not> lt y x"
    and trans: "\<And>x y z. P x \<Longrightarrow> P y \<Longrightarrow> P z \<Longrightarrow> \<not> lt y x \<Longrightarrow> \<not> lt z y \<Longrightarrow> \<not> lt z x"
  shows "\<forall>x \<in> set acc \<union> set xs. P x \<Longrightarrow> sorted_wrt (\<lambda>x y. \<not> lt y x) acc \<Longrightarrow>
    sorted_wrt (\<lambda>x y. \<not> lt y x) (foldl (\<lambda>acc x. insert_by lt x acc) acc xs)"
proof (induction xs arbitrary: acc)
  case Nil
  then show ?case by simp
next
  case (Cons a xs)
  have "sorted_wrt (\<lambda>x y. \<not> lt y x) (insert_by lt a acc)"
    using Cons.prems by (intro sorted_wrt_insert_by [of lt P, OF asym trans]) auto
  moreover have "\<forall>x \<in> set (insert_by lt a acc) \<union> set xs. P x"
    using Cons.prems by (auto simp: set_insert_by)
  ultimately show ?case
    using Cons.IH by simp
qed

lemma flt_asym: "flt x y \<Longrightarrow> \<not> flt y x"
  by (cases x; cases y) auto

lemma flt_not_trans:
  "x \<noteq> NaN \<Longrightarrow> y \<noteq> NaN \<Longrightarrow> z \<noteq> NaN \<Longrightarrow> \<not> flt y x \<Longrightarrow> \<not> flt z y \<Longrightarrow> \<not> flt z x"
  by (cases x; cases y; cases z) auto

lemma fneg_NaN: "fneg x = NaN \<longleftrightarrow> x = NaN"
  by (cases x) auto

lemma not_flt_fneg: "x \<noteq> NaN \<Longrightarrow> y \<noteq> NaN \<Longrightarrow> \<not> flt (fneg y) (fneg x) \<longleftrightarrow> fge x y"
  by (cases x; cases y) (auto simp: fge_def fle_def)

lemma sorted_sort_recs:
  assumes "\<forall>r \<in> set recs. reorder_qty r \<noteq> NaN"
  shows "sorted_wrt (\<lambda>r s. \<not> tuple_lt (rec_key s) (rec_key r)) (sort_recs recs)"
  unfolding sort_recs_def list_sort_def
proof (rule sorted_wrt_foldl_insert_by [where P = "\<lambda>r. reorder_qty r \<noteq> NaN"])
  fix x y :: recommendation
  assume "tuple_lt (rec_key x) (rec_key y)"
  then show "\<not> tuple_lt (rec_key y) (rec_key x)"
    by (auto simp: rec_key_def dest: flt_asym split: if_splits)
next
  fix x y z :: recommendation
  assume "reorder_qty x \<noteq> NaN" "reorder_qty y \<noteq> NaN" "reorder_qty z \<noteq> NaN"
    and "\<not> tuple_lt (rec_key y) (rec_key x)" "\<not> tuple_lt (rec_key z) (rec_key y)"
  then show "\<not> tuple_lt (rec_key z) (rec_key x)"
    using flt_not_trans [of "fneg (reorder_qty x)" "fneg (reorder_qty y)" "fneg (reorder_qty z)"]
    by (auto simp: rec_key_def fneg_NaN split: if_splits)
qed (use assms in auto)

lemma float_of_int_Inr: "float_of_int i = Inr y \<Longrightarrow> y \<noteq> NaN"
  by (auto simp: float_of_int_def split: fl.splits)

lemma ceil_to_moq_not_NaN:
  assumes "ceil_to_moq (py_max (Fin 0) x) mq = Inr q"
  shows "q \<noteq> NaN"
proof -
  have p: "py_max (Fin 0) y \<noteq> NaN" for y
    by (cases y) (auto simp: py_max_def fgt_def)
  show ?thesis
  proof (cases mq)
    case None
    with assms p show ?thesis by auto
  next
    case (Some m)
    with assms p show ?thesis
      by (auto simp: bind_error_Inr split: if_splits dest: float_of_int_Inr)
  qed
qed

lemma output_record:
  assumes "compute_recommendations pd ps df h = Inr out" and "r \<in> set out"
  shows "reorder_qty r \<noteq> NaN" and "status r = ''RED'' \<or> status r = ''AMBER'' \<or> status r = ''GREEN''"
proof -
  from assms obtain kg where s: "sku_recommendation (clock_today ps) h kg = Inr r"
    using compute_recommendations_member by blast
  note f = sku_recommendation_Inr [OF s]
  from f [THEN conjunct1] show "reorder_qty r \<noteq> NaN"
    using ceil_to_moq_not_NaN by blast
  from f show "status r = ''RED'' \<or> status r = ''AMBER'' \<or> status r = ''GREEN''"
    by (auto split: if_splits)
qed

lemma compute_recommendations_sorted:
  assumes "compute_recommendations pd ps df h = Inr out"
  shows "\<exists>recs. out = sort_recs recs"
  using assms
  by (auto simp: compute_recommendations_def Let_def bind_error_Inr split: if_splits)

lemma key_order_status:
  assumes "\<not> tuple_lt (rec_key s) (rec_key r)"
    and "reorder_qty r \<noteq> NaN" and "reorder_qty s \<noteq> NaN"
    and "status r = ''RED'' \<or> status r = ''AMBER'' \<or> status r = ''GREEN''"
    and "status s = ''RED'' \<or> status s = ''AMBER'' \<or> status s = ''GREEN''"
  shows "(status s = ''RED'' \<longrightarrow> status r = ''RED'')
       \<and> (status s = ''AMBER'' \<longrightarrow> status r \<noteq> ''GREEN'')
       \<and> (status r = status s \<longrightarrow> fge (reorder_qty r) (reorder_qty s))"
proof -
  from assms(1) have o: "order_get (status r) \<le> order_get (status s)"
    and q: "order_get (status r) = order_get (status s) \<Longrightarrow>
         \<not> flt (fneg (reorder_qty s)) (fneg (reorder_qty r))"
    by (auto simp: rec_key_def split: if_splits)
  from o assms(4,5) have 1: "status s = ''RED'' \<longrightarrow> status r = ''RED''"
    by (auto simp: order_get_def)
  from o assms(4,5) have 2: "status s = ''AMBER'' \<longrightarrow> status r \<noteq> ''GREEN''"
    by (auto simp: order_get_def)
  from q assms(2,3) have 3: "status r = status s \<longrightarrow> fge (reorder_qty r) (reorder_qty s)"
    by (auto simp: not_flt_fneg)
  from 1 2 3 show ?thesis by blast
qed

text \<open>
  Claim C7. The list that \<^verbatim>\<open>compute_recommendations\<close> returns is sorted: every status in it
  is RED, AMBER or GREEN, no AMBER or GREEN recommendation comes before a RED one, no
  GREEN one before an AMBER one, and of two recommendations with the same status the
  earlier has the greater or equal \<^verbatim>\<open>reorder_qty\<close>. The sort puts GREEN(5), RED(1),
  AMBER(9), RED(3) in the order RED(3), RED(1), AMBER(9), GREEN(5).
\<close>

theorem output_order:
  "(\<forall>out. compute_recommendations pd ps df h = Inr out \<longrightarrow>
      (\<forall>r \<in> set out. status r = ''RED'' \<or> status r = ''AMBER'' \<or> status r = ''GREEN'')
      \<and> sorted_wrt
          (\<lambda>r s. (status s = ''RED'' \<longrightarrow> status r = ''RED'')
                \<and> (status s = ''AMBER'' \<longrightarrow> status r \<noteq> ''GREEN'')
                \<and> (status r = status s \<longrightarrow> fge (reorder_qty r) (reorder_qty s))) out)
   \<and> map status
        (sort_recs [r0\<lparr>status := ''GREEN'', reorder_qty := Fin 5\<rparr>,
                    r0\<lparr>status := ''RED'', reorder_qty := Fin 1\<rparr>,
                    r0\<lparr>status := ''AMBER'', reorder_qty := Fin 9\<rparr>,
                    r0\<lparr>status := ''RED'', reorder_qty := Fin 3\<rparr>])
       = [''RED'', ''RED'', ''AMBER'', ''GREEN'']
   \<and> map reorder_qty
        (sort_recs [r0\<lparr>status := ''GREEN'', reorder_qty := Fin 5\<rparr>,
                    r0\<lparr>status := ''RED'', reorder_qty := Fin 1\<rparr>,
                    r0\<lparr>status := ''AMBER'', reorder_qty := Fin 9\<rparr>,
                    r0\<lparr>status := ''RED'', reorder_qty := Fin 3\<rparr>])
       = [Fin 3, Fin 1, Fin 9, Fin 5]"
proof (intro conjI allI impI)
  fix out
  assume c: "compute_recommendations pd ps df h = Inr out"
  show st: "\<forall>r \<in> set out. status r = ''RED'' \<or> status r = ''AMBER'' \<or> status r = ''GREEN''"
    using output_record(2) [OF c] by blast
  have q: "\<forall>r \<in> set out. reorder_qty r \<noteq> NaN"
    using output_record(1) [OF c] by blast
  from c obtain recs where recs: "out = sort_recs recs"
    using compute_recommendations_sorted by blast
  then have "set recs = set out"
    by (simp add: sort_recs_def set_list_sort)
  with q have "sorted_wrt (\<lambda>r s. \<not> tuple_lt (rec_key s) (rec_key r)) (sort_recs recs)"
    by (intro sorted_sort_recs) simp
  then have "sorted_wrt (\<lambda>r s. \<not> tuple_lt (rec_key s) (rec_key r)) out"
    by (simp add: recs)
  then show "sorted_wrt
          (\<lambda>r s. (status s = ''RED'' \<longrightarrow> status r = ''RED'')
                \<and> (status s = ''AMBER'' \<longrightarrow> status r \<noteq> ''GREEN'')
                \<and> (status r = status s \<longrightarrow> fge (reorder_qty r) (reorder_qty s))) out"
  proof (rule sorted_wrt_mono_rel [rotated])
    fix r s
    assume "r \<in> set out" "s \<in> set out" "\<not> tuple_lt (rec_key s) (rec_key r)"
    then show "(status s = ''RED'' \<longrightarrow> status r = ''RED'')
                \<and> (status s = ''AMBER'' \<longrightarrow> status r \<noteq> ''GREEN'')
                \<and> (status r = status s \<longrightarrow> fge (reorder_qty r) (reorder_qty s))"
      using st q by (intro key_order_status) auto
  qed
next
  show "map status
        (sort_recs [r0\<lparr>status := ''GREEN'', reorder_qty := Fin 5\<rparr>,
                    r0\<lparr>status := ''RED'', reorder_qty := Fin 1\<rparr>,
                    r0\<lparr>status := ''AMBER'', reorder_qty := Fin 9\<rparr>,
                    r0\<lparr>status := ''RED'', reorder_qty := Fin 3\<rparr>])
       = [''RED'', ''RED'', ''AMBER'', ''GREEN'']"
    by (simp add: sort_recs_def list_sort_def rec_key_def order_get_def)
next
  show "map reorder_qty
        (sort_recs [r0\<lparr>status := ''GREEN'', reorder_qty := Fin 5\<rparr>,
                    r0\<lparr>status := ''RED'', reorder_qty := Fin 1\<rparr>,
                    r0\<lparr>status := ''AMBER'', reorder_qty := Fin 9\<rparr>,
                    r0\<lparr>status := ''RED'', reorder_qty := Fin 3\<rparr>])
       = [Fin 3, Fin 1, Fin 9, Fin 5]"
    by (simp add: sort_recs_def list_sort_def rec_key_def order_get_def)
qed

theorem output_order_witness:
  "compute_recommendations \<lparr>to_datetime = Some, to_numeric = id\<rparr>
      \<lparr>clock_today = 739924, CLERK_JWKS_URL = [], CLERK_ISSUER = [], jwks_client_cache = None\<rparr>
      \<lparr>columns = [''SKU'', ''Date'', ''UnitsSold'', ''OnHand'', ''LeadTimeDays''],
       rows = [\<lparr>SKU = Some ''A1'', Date = 0, UnitsSold = Fin 2, OnHand = Fin 30,
                LeadTimeDays = Fin 5, MOQ = NaN, Cost = NaN\<rparr>,
               \<lparr>SKU = Some ''B2'', Date = 0, UnitsSold = Fin 2, OnHand = Fin 12,
                LeadTimeDays = Fin 5, MOQ = NaN, Cost = NaN\<rparr>,
               \<lparr>SKU = Some ''C3'', Date = 0, UnitsSold = Fin 2, OnHand = Fin 8,
                LeadTimeDays = Fin 5, MOQ = NaN, Cost = NaN\<rparr>]\<rparr> 30
     = Inr [\<lparr>sku = ''C3'', current_stock = Fin 8, avg_daily_sales = Fin 2,
              forecast_30d = Fin 60, reorder_qty = Fin 62, reorder_by = Some 739924,
              lead_time_days = 5, moq = None, unit_cost = None, status = ''RED'',
              reason = ''Avg daily sales 2.0. Lead time 5d. Forecast next 30d 60. Recommend reorder 62 to cover horizon + lead time.''\<rparr>,
            \<lparr>sku = ''B2'', current_stock = Fin 12, avg_daily_sales = Fin 2,
              forecast_30d = Fin 60, reorder_qty = Fin 58, reorder_by = Some 739925,
              lead_time_days = 5, moq = None, unit_cost = None, status = ''AMBER'',
              reason = ''Avg daily sales 2.0. Lead time 5d. Forecast next 30d 60. Recommend reorder 58 to cover horizon + lead time.''\<rparr>,
            \<lparr>sku = ''A1'', current_stock = Fin 30, avg_daily_sales = Fin 2,
              forecast_30d = Fin 60, reorder_qty = Fin 40, reorder_by = Some 739934,
              lead_time_days = 5, moq = None, unit_cost = None, status = ''GREEN'',
              reason = ''Avg daily sales 2.0. Lead time 5d. Forecast next 30d 60. Recommend reorder 40 to cover horizon + lead time.''\<rparr>]
   \<and> sorted_wrt
        (\<lambda>r s. (status s = ''RED'' \<longrightarrow> status r = ''RED'')
              \<and> (status s = ''AMBER'' \<longrightarrow> status r \<noteq> ''GREEN'')
              \<and> (status r = status s \<longrightarrow> fge (reorder_qty r) (reorder_qty s)))
        [\<lparr>sku = ''C3'', current_stock = Fin 8, avg_daily_sales = Fin 2,
              forecast_30d = Fin 60, reorder_qty = Fin 62, reorder_by = Some 739924,
              lead_time_days = 5, moq = None, unit_cost = None, status = ''RED'',
              reason = ''Avg daily sales 2.0. Lead time 5d. Forecast next 30d 60. Recommend reorder 62 to cover horizon + lead time.''\<rparr>,
            \<lparr>sku = ''B2'', current_stock = Fin 12, avg_daily_sales = Fin 2,
              forecast_30d = Fin 60, reorder_qty = Fin 58, reorder_by = Some 739925,
              lead_time_days = 5, moq = None, unit_cost = None, status = ''AMBER'',
              reason = ''Avg daily sales 2.0. Lead time 5d. Forecast next 30d 60. Recommend reorder 58 to cover horizon + lead time.''\<rparr>,
            \<lparr>sku = ''A1'', current_stock = Fin 30, avg_daily_sales = Fin 2,
              forecast_30d = Fin 60, reorder_qty = Fin 40, reorder_by = Some 739934,
              lead_time_days = 5, moq = None, unit_cost = None, status = ''GREEN'',
              reason = ''Avg daily sales 2.0. Lead time 5d. Forecast next 30d 60. Recommend reorder 40 to cover horizon + lead time.''\<rparr>]"
proof -
  let ?pd = "\<lparr>to_datetime = Some, to_numeric = id\<rparr> :: (int, fl) pandas"
  let ?ps = "\<lparr>clock_today = 739924, CLERK_JWKS_URL = [], CLERK_ISSUER = [], jwks_client_cache = None\<rparr>"
  let ?df = "\<lparr>columns = [''SKU'', ''Date'', ''UnitsSold'', ''OnHand'', ''LeadTimeDays''],
       rows = [\<lparr>SKU = Some ''A1'', Date = 0, UnitsSold = Fin 2, OnHand = Fin 30,
                LeadTimeDays = Fin 5, MOQ = NaN, Cost = NaN\<rparr>,
               \<lparr>SKU = Some ''B2'', Date = 0, UnitsSold = Fin 2, OnHand = Fin 12,
                LeadTimeDays = Fin 5, MOQ = NaN, Cost = NaN\<rparr>,
               \<lparr>SKU = Some ''C3'', Date = 0, UnitsSold = Fin 2, OnHand = Fin 8,
                LeadTimeDays = Fin 5, MOQ = NaN, Cost = NaN\<rparr>]\<rparr> :: (int, fl) dataframe"
  let ?out = "[\<lparr>sku = ''C3'', current_stock = Fin 8, avg_daily_sales = Fin 2,
              forecast_30d = Fin 60, reorder_qty = Fin 62, reorder_by = Some 739924,
              lead_time_days = 5, moq = None, unit_cost = None, status = ''RED'',
              reason = ''Avg daily sales 2.0. Lead time 5d. Forecast next 30d 60. Recommend reorder 62 to cover horizon + lead time.''\<rparr>,
            \<lparr>sku = ''B2'', current_stock = Fin 12, avg_daily_sales = Fin 2,
              forecast_30d = Fin 60, reorder_qty = Fin 58, reorder_by = Some 739925,
              lead_time_days = 5, moq = None, unit_cost = None, status = ''AMBER'',
              reason = ''Avg daily sales 2.0. Lead time 5d. Forecast next 30d 60. Recommend reorder 58 to cover horizon + lead time.''\<rparr>,
            \<lparr>sku = ''A1'', current_stock = Fin 30, avg_daily_sales = Fin 2,
              forecast_30d = Fin 60, reorder_qty = Fin 40, reorder_by = Some 739934,
              lead_time_days = 5, moq = None, unit_cost = None, status = ''GREEN'',
              reason = ''Avg daily sales 2.0. Lead time 5d. Forecast next 30d 60. Recommend reorder 40 to cover horizon + lead time.''\<rparr>]"
  have c: "compute_recommendations ?pd ?ps ?df 30 = Inr ?out"
    by code_simp
  from output_order [THEN conjunct1, rule_format, of ?pd ?ps ?df 30 ?out, OF c] c
  show ?thesis by blast
qed

subsection \<open>The two variants\<close>

lemma app_ceil_to_moq_eq: "app_ceil_to_moq = ceil_to_moq"
proof (intro ext)
  fix x m show "app_ceil_to_moq x m = ceil_to_moq x m"
    by (cases m) simp_all
qed

lemma app_clean_eq: "app_clean = clean"
  by (intro ext) (simp add: app_clean_def clean_def app_parse_date_series_def parse_date_series_def)

lemma app_avg_daily_of_eq: "app_avg_daily_of = avg_daily_of"
  by (intro ext)
    (simp add: app_avg_daily_of_def avg_daily_of_def app_recent_rows_def recent_rows_def
      app_daily_sums_def daily_sums_def)

lemma app_trend_note_of_eq: "app_trend_note_of = trend_note_of"
  by (intro ext) (simp add: app_trend_note_of_def trend_note_of_def)

lemma app_sku_recommendation_eq: "app_sku_recommendation = sku_recommendation"
  by (intro ext)
    (simp only: app_sku_recommendation_def sku_recommendation_def app_ceil_to_moq_eq
      app_avg_daily_of_eq app_trend_note_of_eq)

lemma app_sort_recs_eq: "app_sort_recs = sort_recs"
  by (intro ext)
    (simp add: app_sort_recs_def sort_recs_def app_rec_key_def rec_key_def app_order_get_def
      order_get_def)

lemma app_missing_columns_eq: "app_missing_columns = missing_columns"
  by (intro ext)
    (simp add: app_missing_columns_def missing_columns_def app_REQUIRED_COLS_def REQUIRED_COLS_def)

text \<open>
  Claim C9. The unauthenticated variant, run with the date of the clock, and the
  authenticated variant return the same result for every table and horizon: the same
  error or the same list of recommendations.
\<close>

theorem variants_agree:
  "app_compute_recommendations pd (clock_today ps) df h = compute_recommendations pd ps df h"
  by (simp only: app_compute_recommendations_def compute_recommendations_def
      app_missing_columns_eq app_sku_recommendation_eq app_clean_eq app_sort_recs_eq)

subsection \<open>Missing values of the last row\<close>

text \<open>
  Claim C2 says that a table with the required columns never makes the function raise,
  and that a missing \<^verbatim>\<open>OnHand\<close> or \<^verbatim>\<open>LeadTimeDays\<close> of the last row reads as 0. The code
  writes the default as \<^verbatim>\<open>last.get(..., 0) or 0\<close>, and a missing value is \<open>NaN\<close>, which is
  truthy. So a last row with no \<^verbatim>\<open>LeadTimeDays\<close> makes \<^verbatim>\<open>int(nan)\<close> raise
  \<^verbatim>\<open>ValueError\<close>; a last row with no \<^verbatim>\<open>OnHand\<close> gives a \<^verbatim>\<open>current_stock\<close> of \<open>NaN\<close> (its
  missing \<^verbatim>\<open>MOQ\<close> and \<^verbatim>\<open>Cost\<close> are null, as claimed); and a stock of 3000000 with one sale
  a day puts \<^verbatim>\<open>reorder_by\<close> past \<^verbatim>\<open>date.max\<close>, which raises \<^verbatim>\<open>OverflowError\<close>.
\<close>

theorem missing_values_not_defaulted:
  "compute_recommendations \<lparr>to_datetime = Some, to_numeric = id\<rparr>
      \<lparr>clock_today = 739924, CLERK_JWKS_URL = [], CLERK_ISSUER = [], jwks_client_cache = None\<rparr>
      \<lparr>columns = [''SKU'', ''Date'', ''UnitsSold'', ''OnHand'', ''LeadTimeDays''],
       rows = [\<lparr>SKU = Some ''A1'', Date = 0, UnitsSold = Fin 2, OnHand = Fin 8,
                LeadTimeDays = NaN, MOQ = NaN, Cost = NaN\<rparr>]\<rparr> 30
     = Inl ValueError_nan_to_integer
   \<and> compute_recommendations \<lparr>to_datetime = Some, to_numeric = id\<rparr>
      \<lparr>clock_today = 739924, CLERK_JWKS_URL = [], CLERK_ISSUER = [], jwks_client_cache = None\<rparr>
      \<lparr>columns = [''SKU'', ''Date'', ''UnitsSold'', ''OnHand'', ''LeadTimeDays'', ''MOQ'', ''Cost''],
       rows = [\<lparr>SKU = Some ''A1'', Date = 0, UnitsSold = Fin 2, OnHand = NaN,
                LeadTimeDays = Fin 5, MOQ = NaN, Cost = NaN\<rparr>]\<rparr> 30
     = Inr [\<lparr>sku = ''A1'', current_stock = NaN, avg_daily_sales = Fin 2,
              forecast_30d = Fin 60, reorder_qty = Fin 0, reorder_by = None,
              lead_time_days = 5, moq = None, unit_cost = None, status = ''GREEN'',
              reason = ''Avg daily sales 2.0. Lead time 5d. Forecast next 30d 60. Recommend reorder 0 to cover horizon + lead time.''\<rparr>]
   \<and> compute_recommendations \<lparr>to_datetime = Some, to_numeric = id\<rparr>
      \<lparr>clock_today = 739924, CLERK_JWKS_URL = [], CLERK_ISSUER = [], jwks_client_cache = None\<rparr>
      \<lparr>columns = [''SKU'', ''Date'', ''UnitsSold'', ''OnHand'', ''LeadTimeDays''],
       rows = [\<lparr>SKU = Some ''A1'', Date = 0, UnitsSold = Fin 1, OnHand = Fin 3000000,
                LeadTimeDays = Fin 5, MOQ = NaN, Cost = NaN\<rparr>]\<rparr> 30
     = Inl OverflowError_date_out_of_range"
  by (intro conjI) code_simp+

end
